theory Spec2Isabelle
  imports Complex_Main
begin

section \<open>Python values shared by the two source files\<close>

text \<open>
  Exceptions of the Python code are values.  An \<open>AssertionError\<close> and a \<open>NameError\<close>
  carry their message, a \<open>RuntimeError\<close> the name of the operation that rejected its
  arguments.
\<close>

datatype error =
    IndexError
  | AssertionError string
  | NotImplementedError
  | NameError string
  | UnboundLocalError string
  | AttributeError string
  | RuntimeError string
  | ExternalError string

fun error_message :: "error \<Rightarrow> string" where
  "error_message IndexError = ''list index out of range''"
| "error_message (AssertionError m) = m"
| "error_message NotImplementedError = []"
| "error_message (NameError n) = ''name '' @ n @ '' is not defined''"
| "error_message (UnboundLocalError n) = ''local variable '' @ n @ '' referenced before assignment''"
| "error_message (AttributeError n) = ''NoneType object has no attribute '' @ n"
| "error_message (RuntimeError m) = m"
| "error_message (ExternalError m) = m"

text \<open>Sequencing of fallible steps: the first exception ends the computation.\<close>

definition bind_err :: "error + 'a \<Rightarrow> ('a \<Rightarrow> error + 'b) \<Rightarrow> error + 'b" where
  "bind_err r f = (case r of Inl e \<Rightarrow> Inl e | Inr v \<Rightarrow> f v)"

text \<open>
  Python list indexing: a negative index counts from the end, an index outside
  \<open>-len .. len - 1\<close> raises \<open>IndexError\<close>.
\<close>

definition py_index :: "nat \<Rightarrow> int \<Rightarrow> nat option" where
  "py_index n i =
     (if 0 \<le> i then (if i < int n then Some (nat i) else None)
      else (if - int n \<le> i then Some (nat (int n + i)) else None))"

definition py_get :: "'a list \<Rightarrow> int \<Rightarrow> error + 'a" where
  "py_get xs i = (case py_index (length xs) i of None \<Rightarrow> Inl IndexError | Some k \<Rightarrow> Inr (xs ! k))"

definition py_set :: "'a list \<Rightarrow> int \<Rightarrow> 'a \<Rightarrow> error + 'a list" where
  "py_set xs i v =
     (case py_index (length xs) i of None \<Rightarrow> Inl IndexError | Some k \<Rightarrow> Inr (xs[k := v]))"

text \<open>Decimal rendering of a number, as an error message would print an index.\<close>

definition digit_char :: "nat \<Rightarrow> char" where
  "digit_char d = char_of (48 + d)"

fun show_nat_fuel :: "nat \<Rightarrow> nat \<Rightarrow> string" where
  "show_nat_fuel 0 n = [digit_char (n mod 10)]"
| "show_nat_fuel (Suc f) n =
     (if n < 10 then [digit_char n] else show_nat_fuel f (n div 10) @ [digit_char (n mod 10)])"

definition show_nat :: "nat \<Rightarrow> string" where
  "show_nat n = show_nat_fuel n n"

definition names_index :: "error \<Rightarrow> nat \<Rightarrow> bool" where
  "names_index e i = (\<exists>pre suf. error_message e = pre @ show_nat i @ suf)"

section \<open>The global names of \<open>pointnet.py\<close>\<close>

text \<open>
  A global name is looked up in the namespace of the module when the statement that
  reads it runs, and a name that is bound neither there nor as a builtin raises
  \<open>NameError\<close>.  \<open>pointnet_names\<close> lists what \<open>pointnet.py\<close> binds: its five imports and its
  five classes.  The file reads one more global name, \<open>pointnet2_utils\<close>, which it never
  binds.  The functions of the module take the list \<open>G\<close> of the names that somebody else
  has put into its namespace by the time they run.  \<open>shipped\<close> is the module as it is:
  nothing was added.  \<open>with_kernels\<close> is the module after a module of kernels was
  bound under the missing name from outside.  The names that the module binds itself
  are bound whatever \<open>G\<close> is, so only the reads of \<open>pointnet2_utils\<close> can fail.
\<close>

definition pointnet_names :: "string list" where
  "pointnet_names =
     [''torch'', ''nn'', ''F'', ''List'', ''gen_CNN'', ''Pointnet2MSG'', ''_PointnetSAModuleBase'',
      ''PointnetSAModuleMSG'', ''PointnetSAModule'', ''PointnetFPModule'']"

definition read_global :: "string list \<Rightarrow> string \<Rightarrow> error + unit" where
  "read_global G n =
     (if n \<in> set pointnet_names \<or> n \<in> set G then Inr () else Inl (NameError n))"

definition shipped :: "string list" where
  "shipped = []"

definition with_kernels :: "string list" where
  "with_kernels = [''pointnet2_utils'']"

section \<open>Channel transforms (\<open>gen_CNN\<close>)\<close>

text \<open>
  Modelled from the spec: \<open>gen_CNN\<close> lives in \<open>..utils.torch_utils\<close>, which is not part
  of the sources at hand.  The spec calls its result a ChannelTransform, an opaque
  parameterized per-point function with a declared input and output width; the widths
  are the first and the last entry of the width sequence handed over at construction
  time, and every two neighbouring entries make one layer.  A sequence of fewer than
  two widths makes no layer: the transform is built and hands its input on as it is.
  A layer of a negative width cannot be built.  The list is read when the transform is
  built: later changes of the list object do not reach the transform.
\<close>

record cnn =
  cnn_spec :: "int list"

definition gen_CNN :: "int list \<Rightarrow> error + cnn" where
  "gen_CNN mlp_spec =
     (if 2 \<le> length mlp_spec \<and> (\<exists>w \<in> set mlp_spec. w < 0)
      then Inl (ExternalError ''gen_CNN'')
      else Inr \<lparr>cnn_spec = mlp_spec\<rparr>)"

definition in_width :: "cnn \<Rightarrow> int" where
  "in_width c = hd (cnn_spec c)"

definition out_width :: "cnn \<Rightarrow> int" where
  "out_width c = last (cnn_spec c)"

text \<open>The channel width of what a transform returns for an input of the width \<open>w\<close>.\<close>

definition out_channels_of :: "cnn \<Rightarrow> nat \<Rightarrow> nat" where
  "out_channels_of c w = (if length (cnn_spec c) < 2 then w else nat (out_width c))"

section \<open>Construction of a set-abstraction stage\<close>

text \<open>
  \<open>PointnetSAModuleMSG.__init__\<close> writes into the lists it is given
  (\<open>mlp_spec = mlps[i]; mlp_spec[0] += 3\<close>), so the lists of widths are objects of a
  store and \<open>mlps\<close> is a list of references to them.  Two entries of \<open>mlps\<close> may be the
  same reference, as in the Python idiom \<open>[[16, 32]] * 2\<close>.
\<close>

type_synonym ref = nat
type_synonym store = "ref \<Rightarrow> int list"

datatype grouper = QueryAndGroup real int bool | GroupAll bool

record sa_module =
  npoint :: "int option"
  groupers :: "grouper list"
  mlps :: "cnn list"
  pool_method :: string

text \<open>\<open>mlp_spec[0] += 3\<close> on the list object behind a reference.\<close>

definition add3_first :: "store \<Rightarrow> ref \<Rightarrow> error + store" where
  "add3_first h r =
     (case h r of
        [] \<Rightarrow> Inl IndexError
      | w # ws \<Rightarrow> Inr (h(r := (w + 3) # ws)))"

text \<open>
  The body of \<open>for i in range(len(radii))\<close>, one scale after the other.  The three
  lists have equal length when the loop starts (the assertion before it), so the loop is
  a recursion over the three lists together.  The accumulators are \<open>self.groupers\<close> and
  \<open>self.mlps\<close>; the store is returned also when an exception ends the loop.  The first
  thing a round evaluates, after \<open>radii[i]\<close> and \<open>nsamples[i]\<close>, is the grouper, which is
  \<open>pointnet2_utils.QueryAndGroup(...)\<close> or \<open>pointnet2_utils.GroupAll(...)\<close>: either way
  the global name \<open>pointnet2_utils\<close> is read, before \<open>mlp_spec[0] += 3\<close> and before
  \<open>gen_CNN\<close>.
\<close>

fun sa_init_loop ::
  "string list \<Rightarrow> int option \<Rightarrow> bool \<Rightarrow> real list \<Rightarrow> int list \<Rightarrow> ref list \<Rightarrow> store \<Rightarrow>
   grouper list \<Rightarrow> cnn list \<Rightarrow> (error + grouper list \<times> cnn list) \<times> store" where
  "sa_init_loop G np use_xyz (radius # radii) (nsample # nsamples) (mlp_spec # mlps') h gs ms =
     (case read_global G ''pointnet2_utils'' of
        Inl e \<Rightarrow> (Inl e, h)
      | Inr _ \<Rightarrow>
         (let g = (if np \<noteq> None then QueryAndGroup radius nsample use_xyz
                   else GroupAll use_xyz) in
          case (if use_xyz then add3_first h mlp_spec else Inr h) of
            Inl e \<Rightarrow> (Inl e, h)
          | Inr h' \<Rightarrow>
             (case gen_CNN (h' mlp_spec) of
                Inl e \<Rightarrow> (Inl e, h')
              | Inr c \<Rightarrow>
                  sa_init_loop G np use_xyz radii nsamples mlps' h' (gs @ [g]) (ms @ [c]))))"
| "sa_init_loop G np use_xyz radii nsamples mlps' h gs ms = (Inr (gs, ms), h)"

text \<open>
  The constructor: the assertion on the three lengths (a bare \<open>assert\<close>, without a
  message), then the loop, then \<open>self.pool_method = pool_method\<close>, stored as it is.
\<close>

definition PointnetSAModuleMSG_init ::
  "string list \<Rightarrow> store \<Rightarrow> int option \<Rightarrow> real list \<Rightarrow> int list \<Rightarrow> ref list \<Rightarrow> bool \<Rightarrow> string \<Rightarrow>
   (error + sa_module) \<times> store" where
  "PointnetSAModuleMSG_init G h np radii nsamples mlps' use_xyz pool =
     (if \<not> (length radii = length nsamples \<and> length nsamples = length mlps')
      then (Inl (AssertionError []), h)
      else
        (case sa_init_loop G np use_xyz radii nsamples mlps' h [] [] of
           (Inl e, h') \<Rightarrow> (Inl e, h')
         | (Inr (gs, ms), h') \<Rightarrow>
             (Inr \<lparr>npoint = np, groupers = gs, mlps = ms, pool_method = pool\<rparr>, h')))"

section \<open>Construction of a feature-propagation stage and of the network\<close>

record fp_module =
  fp_mlp :: cnn

definition PointnetFPModule_init :: "int list \<Rightarrow> error + fp_module" where
  "PointnetFPModule_init mlp = bind_err (gen_CNN mlp) (\<lambda>c. Inr \<lparr>fp_mlp = c\<rparr>)"

record sa_config =
  cfg_npoints :: "int option list"
  cfg_radius :: "real list list"
  cfg_nsample :: "int list list"
  cfg_mlps :: "int list list list"

text \<open>
  \<open>skip_channel_list\<close> is a local variable of the constructor; the model keeps it beside
  the two module lists so that the widths it recorded can be talked about.
\<close>

record pointnet2 =
  SA_modules :: "sa_module list"
  FP_modules :: "fp_module list"
  skip_channel_list :: "int list"

text \<open>
  The inner loop \<open>for idx in range(len(mlps))\<close>: every width sequence gets the running
  input width in front, as a new list, and its last entry is added to \<open>out_channels\<close>.
\<close>

fun prefix_loop :: "int \<Rightarrow> int list list \<Rightarrow> int \<Rightarrow> int list list \<times> int" where
  "prefix_loop in_channels [] out_channels = ([], out_channels)"
| "prefix_loop in_channels (m # ms) out_channels =
     (let m' = [in_channels] @ m;
          (ms', out') = prefix_loop in_channels ms (out_channels + last m')
      in (m' # ms', out'))"

text \<open>
  The lists built by the inner loop are new objects that nothing else refers to: they
  are placed at the references \<open>0, 1, ...\<close> of a store of their own.
\<close>

definition fresh_store :: "int list list \<Rightarrow> store" where
  "fresh_store ms = (\<lambda>r. if r < length ms then ms ! r else [])"

text \<open>
  The loop \<open>for i in range(len(SA_config["npoints"]))\<close>.  Its state is the list of
  stages built so far, \<open>in_channels\<close>, \<open>out_channels\<close> (unbound before the first round)
  and \<open>skip_channel_list\<close>.
\<close>

fun sa_stage_loop ::
  "string list \<Rightarrow> bool \<Rightarrow> sa_config \<Rightarrow> nat list \<Rightarrow> sa_module list \<Rightarrow> int \<Rightarrow> int option \<Rightarrow>
   int list \<Rightarrow> error + sa_module list \<times> int \<times> int option \<times> int list" where
  "sa_stage_loop G use_xyz cfg [] sas in_channels out_channels skips =
     Inr (sas, in_channels, out_channels, skips)"
| "sa_stage_loop G use_xyz cfg (i # is) sas in_channels out_channels skips =
     bind_err (py_get (cfg_mlps cfg) (int i)) (\<lambda>mlps0.
       let (mlps', out') = prefix_loop in_channels mlps0 0 in
       bind_err (py_get (cfg_npoints cfg) (int i)) (\<lambda>np.
       bind_err (py_get (cfg_radius cfg) (int i)) (\<lambda>radii.
       bind_err (py_get (cfg_nsample cfg) (int i)) (\<lambda>nsamples.
       bind_err (fst (PointnetSAModuleMSG_init G (fresh_store mlps') np radii nsamples
                        [0 ..< length mlps'] use_xyz ''max_pool'')) (\<lambda>sa.
         sa_stage_loop G use_xyz cfg is (sas @ [sa]) out' (Some out') (skips @ [out']))))))"

text \<open>The loop \<open>for i in range(len(fp_mlps))\<close>.\<close>

fun fp_stage_loop ::
  "int list list \<Rightarrow> int option \<Rightarrow> int list \<Rightarrow> nat list \<Rightarrow> fp_module list \<Rightarrow>
   error + fp_module list" where
  "fp_stage_loop fp_mlps out_channels skips [] fps = Inr fps"
| "fp_stage_loop fp_mlps out_channels skips (i # is) fps =
     bind_err
       (if i + 1 < length fp_mlps
        then bind_err (py_get fp_mlps (int i + 1)) (\<lambda>m. py_get m (- 1))
        else (case out_channels of
                None \<Rightarrow> Inl (UnboundLocalError ''out_channels'')
              | Some oc \<Rightarrow> Inr oc)) (\<lambda>pre_channel.
     bind_err (py_get skips (int i)) (\<lambda>skip.
     bind_err (py_get fp_mlps (int i)) (\<lambda>m.
     bind_err (PointnetFPModule_init ([pre_channel + skip] @ m)) (\<lambda>fp.
       fp_stage_loop fp_mlps out_channels skips is (fps @ [fp])))))"

definition Pointnet2MSG_init ::
  "string list \<Rightarrow> int \<Rightarrow> bool \<Rightarrow> sa_config \<Rightarrow> int list list \<Rightarrow> error + pointnet2" where
  "Pointnet2MSG_init G in_channels use_xyz SA_config fp_mlps =
     bind_err (sa_stage_loop G use_xyz SA_config [0 ..< length (cfg_npoints SA_config)] []
                 in_channels None [in_channels]) (\<lambda>(sas, in_ch, out_channels, skips).
     bind_err (fp_stage_loop fp_mlps out_channels skips [0 ..< length fp_mlps] []) (\<lambda>fps.
       Inr \<lparr>SA_modules = sas, FP_modules = fps, skip_channel_list = skips\<rparr>))"

section \<open>Tensors\<close>

text \<open>
  A tensor is its shape and its entries in row-major order (the last dimension is the
  contiguous one).  Entries are real numbers: rounding is not modelled.
\<close>

datatype tensor = Tensor (shape: "nat list") (elems: "real list")

fun chunks :: "nat \<Rightarrow> 'a list \<Rightarrow> 'a list list" where
  "chunks n xs = (if n = 0 \<or> xs = [] then [] else take n xs # chunks n (drop n xs))"

declare chunks.simps [simp del]

text \<open>\<open>t[..., 0:k]\<close> and \<open>t[..., k:]\<close>; a tensor without dimensions cannot be indexed.\<close>

definition slice_last_upto :: "nat \<Rightarrow> tensor \<Rightarrow> error + tensor" where
  "slice_last_upto k t =
     (case rev (shape t) of
        [] \<Rightarrow> Inl IndexError
      | c # pre \<Rightarrow> Inr (Tensor (rev pre @ [min k c]) (concat (map (take k) (chunks c (elems t))))))"

definition slice_last_from :: "nat \<Rightarrow> tensor \<Rightarrow> error + tensor" where
  "slice_last_from k t =
     (case rev (shape t) of
        [] \<Rightarrow> Inl IndexError
      | c # pre \<Rightarrow> Inr (Tensor (rev pre @ [c - k]) (concat (map (drop k) (chunks c (elems t))))))"

text \<open>\<open>t.size(-1)\<close>.\<close>

definition size_last :: "tensor \<Rightarrow> error + nat" where
  "size_last t = (if shape t = [] then Inl IndexError else Inr (last (shape t)))"

text \<open>\<open>t.transpose(1, 2).contiguous()\<close>: the entry at \<open>[b, c, n]\<close> is the old one at \<open>[b, n, c]\<close>.\<close>

definition transpose12 :: "tensor \<Rightarrow> error + tensor" where
  "transpose12 t =
     (case shape t of
        B # N # C # rest \<Rightarrow>
          (let blk = prod_list rest in
           Inr (Tensor (B # C # N # rest)
                  (concat [take blk (drop (((b * N + n) * C + c) * blk) (elems t)).
                             b \<leftarrow> [0 ..< B], c \<leftarrow> [0 ..< C], n \<leftarrow> [0 ..< N]])))
      | _ \<Rightarrow> Inl IndexError)"

text \<open>\<open>t.squeeze(-1)\<close> and \<open>t.unsqueeze(-1)\<close>.\<close>

definition squeeze_last :: "tensor \<Rightarrow> tensor" where
  "squeeze_last t =
     (case rev (shape t) of
        [] \<Rightarrow> t
      | d # pre \<Rightarrow> (if d = 1 then Tensor (rev pre) (elems t) else t))"

definition unsqueeze_last :: "tensor \<Rightarrow> tensor" where
  "unsqueeze_last t = Tensor (shape t @ [1]) (elems t)"

text \<open>
  \<open>torch.cat(ts, dim=1)\<close>: the tensors agree in every dimension but the second; an empty
  list of tensors is an error.
\<close>

definition cat_dim1 :: "tensor list \<Rightarrow> error + tensor" where
  "cat_dim1 ts =
     (case ts of
        [] \<Rightarrow> Inl (RuntimeError ''cat'')
      | t # _ \<Rightarrow>
         (case shape t of
            B # C # rest \<Rightarrow>
              (if \<forall>u \<in> set ts. length (shape u) = length (shape t) \<and> hd (shape u) = B
                                  \<and> drop 2 (shape u) = rest
               then Inr (Tensor (B # sum_list (map (\<lambda>u. shape u ! 1) ts) # rest)
                          (concat [take (shape u ! 1 * prod_list rest)
                                     (drop (b * (shape u ! 1 * prod_list rest)) (elems u)).
                                     b \<leftarrow> [0 ..< B], u \<leftarrow> ts]))
               else Inl (RuntimeError ''cat''))
          | _ \<Rightarrow> Inl IndexError))"

text \<open>
  \<open>F.max_pool2d(x, kernel_size=[1, x.size(3)])\<close> and the same call of \<open>avg_pool2d\<close>:
  every row of the last dimension becomes one entry.  \<open>x.size(3)\<close> needs four dimensions,
  and a kernel of width zero is rejected.
\<close>

definition pool_rows :: "(real list \<Rightarrow> real) \<Rightarrow> string \<Rightarrow> tensor \<Rightarrow> error + tensor" where
  "pool_rows f name x =
     (case shape x of
        [B, C, H, W] \<Rightarrow>
          (if W = 0 then Inl (RuntimeError name)
           else Inr (Tensor [B, C, H, 1] (map f (chunks W (elems x)))))
      | sh \<Rightarrow> (if length sh < 4 then Inl IndexError else Inl (RuntimeError name)))"

definition max_pool2d :: "tensor \<Rightarrow> error + tensor" where
  "max_pool2d = pool_rows (\<lambda>row. Max (set row)) ''max_pool2d''"

definition avg_pool2d :: "tensor \<Rightarrow> error + tensor" where
  "avg_pool2d = pool_rows (\<lambda>row. sum_list row / real (length row)) ''avg_pool2d''"

text \<open>
  \<open>t.expand(*sizes)\<close>: the dimensions of the tensor are lined up with the last of the
  requested sizes; a dimension of size one is repeated to the requested size, any other
  must have that size already, and requested sizes for which the tensor has no
  dimension are put in front.  \<open>known_feats.expand(*known_feats.size()[0:2], n)\<close> asks
  for the first two sizes of the tensor followed by \<open>n\<close>.
\<close>

fun expand_data :: "nat list \<Rightarrow> nat list \<Rightarrow> real list \<Rightarrow> real list" where
  "expand_data (d # ds) (t # ts) xs =
     (let subs = map (expand_data ds ts) (chunks (prod_list ds) xs) in
      if d = t then concat subs else concat (replicate t (concat subs)))"
| "expand_data ds ts xs = xs"

definition expand_to :: "nat list \<Rightarrow> tensor \<Rightarrow> error + tensor" where
  "expand_to sizes x =
     (if length sizes < length (shape x) then Inl (RuntimeError ''expand'')
      else
        (let src = replicate (length sizes - length (shape x)) 1 @ shape x in
         if list_all2 (\<lambda>d t. d = t \<or> d = 1) src sizes
         then Inr (Tensor sizes (expand_data src sizes (elems x)))
         else Inl (RuntimeError ''expand'')))"

definition expand_last :: "tensor \<Rightarrow> nat \<Rightarrow> error + tensor" where
  "expand_last kf n = expand_to (take 2 (shape kf) @ [n]) kf"

section \<open>The numeric kernels of \<open>pointnet2_utils\<close>\<close>

text \<open>
  The source calls the sampling, grouping and interpolation kernels as attributes of
  \<open>pointnet2_utils\<close>, a module that is not among the sources and that \<open>pointnet.py\<close> does
  not import.  A call of a kernel is reached only when the name is bound; what is bound
  there is taken to be the external primitives whose interfaces the spec lists.  The
  kernels compute entries that this development does not look into: what they compute
  is a parameter, one function for each kernel.  \<open>cnn_data\<close> stands for the learned
  parameters of the channel transforms.
\<close>

record prims =
  fps_data :: "tensor \<Rightarrow> nat \<Rightarrow> real list"
  gather_data :: "tensor \<Rightarrow> tensor \<Rightarrow> real list"
  query_group_data :: "real \<Rightarrow> nat \<Rightarrow> bool \<Rightarrow> tensor \<Rightarrow> tensor \<Rightarrow> tensor option \<Rightarrow> real list"
  group_all_data :: "bool \<Rightarrow> tensor \<Rightarrow> tensor option \<Rightarrow> real list"
  three_nn_dist :: "tensor \<Rightarrow> tensor \<Rightarrow> real list"
  three_nn_idx :: "tensor \<Rightarrow> tensor \<Rightarrow> real list"
  three_interpolate_data :: "tensor \<Rightarrow> tensor \<Rightarrow> tensor \<Rightarrow> real list"
  cnn_data :: "int list \<Rightarrow> tensor \<Rightarrow> real list"

definition size_at :: "tensor \<Rightarrow> nat \<Rightarrow> nat" where
  "size_at t k = shape t ! k"

text \<open>The number of feature channels of a \<open>(B, C, N)\<close> tensor of features; none is no channel.\<close>

definition feat_width :: "tensor option \<Rightarrow> nat" where
  "feat_width f = (case f of None \<Rightarrow> 0 | Some t \<Rightarrow> size_at t 1)"

text \<open>
  Modelled from the spec: farthest-point sampling, \<open>(coords[B,N,3], M) -> indices[B,M]\<close>,
  which fails if \<open>M > N\<close>.  \<open>pointnet2_utils\<close> is not part of the sources at hand.  A
  negative count is no count and fails as well.
\<close>

definition furthest_point_sample :: "prims \<Rightarrow> tensor \<Rightarrow> int \<Rightarrow> error + tensor" where
  "furthest_point_sample P xyz np =
     (if shape xyz = [size_at xyz 0, size_at xyz 1, 3] \<and> 0 \<le> np \<and> np \<le> int (size_at xyz 1)
      then Inr (Tensor [size_at xyz 0, nat np] (fps_data P xyz (nat np)))
      else Inl (ExternalError ''furthest_point_sample''))"

text \<open>
  Modelled from the spec: the indexed gather of the weighted gather/interpolate
  interface, \<open>(features[B,C,N], indices[B,M]) -> [B,C,M]\<close>.
\<close>

definition gather_operation :: "prims \<Rightarrow> tensor \<Rightarrow> tensor \<Rightarrow> error + tensor" where
  "gather_operation P feats idx =
     (if shape feats = [size_at feats 0, size_at feats 1, size_at feats 2]
         \<and> shape idx = [size_at feats 0, size_at idx 1]
      then Inr (Tensor [size_at feats 0, size_at feats 1, size_at idx 1] (gather_data P feats idx))
      else Inl (ExternalError ''gather_operation''))"

text \<open>
  Modelled from the spec: ball-query grouping,
  \<open>(coords[B,N,3], centers[B,M,3], radius, capacity) -> neighbor_indices[B,M,capacity]\<close>,
  padded to the capacity; the grouped features are \<open>(B, C, M, capacity)\<close>, and in
  relative-offset mode the three offset coordinates are concatenated to each
  neighbour's feature vector, so the width is \<open>C + 3\<close> (\<open>3\<close> without features).  Without
  features and without offsets there is nothing to group.
\<close>

definition query_and_group ::
  "prims \<Rightarrow> real \<Rightarrow> int \<Rightarrow> bool \<Rightarrow> tensor \<Rightarrow> tensor option \<Rightarrow> tensor option \<Rightarrow> error + tensor" where
  "query_and_group P radius nsample use_xyz xyz new_xyz features =
     (case new_xyz of
        None \<Rightarrow> Inl (ExternalError ''QueryAndGroup'')
      | Some c \<Rightarrow>
         (if shape xyz = [size_at xyz 0, size_at xyz 1, 3] \<and> shape c = [size_at xyz 0, size_at c 1, 3]
             \<and> 0 \<le> nsample
          then
            (case features of
               None \<Rightarrow>
                 (if use_xyz
                  then Inr (Tensor [size_at xyz 0, 3, size_at c 1, nat nsample]
                              (query_group_data P radius (nat nsample) use_xyz xyz c features))
                  else Inl (ExternalError ''QueryAndGroup''))
             | Some f \<Rightarrow>
                 (if shape f = [size_at xyz 0, size_at f 1, size_at xyz 1]
                  then Inr (Tensor [size_at xyz 0, size_at f 1 + (if use_xyz then 3 else 0), size_at c 1,
                                    nat nsample]
                              (query_group_data P radius (nat nsample) use_xyz xyz c features))
                  else Inl (ExternalError ''QueryAndGroup'')))
          else Inl (ExternalError ''QueryAndGroup'')))"

text \<open>
  Modelled from the spec: group-all treats the entire set as one neighbourhood, so
  there is one group holding all \<open>N\<close> points: \<open>(B, C (+ 3), 1, N)\<close>.  The centers are not
  looked at.
\<close>

definition group_all ::
  "prims \<Rightarrow> bool \<Rightarrow> tensor \<Rightarrow> tensor option \<Rightarrow> tensor option \<Rightarrow> error + tensor" where
  "group_all P use_xyz xyz new_xyz features =
     (if shape xyz = [size_at xyz 0, size_at xyz 1, 3]
      then
        (case features of
           None \<Rightarrow>
             (if use_xyz
              then Inr (Tensor [size_at xyz 0, 3, 1, size_at xyz 1] (group_all_data P use_xyz xyz features))
              else Inl (ExternalError ''GroupAll''))
         | Some f \<Rightarrow>
             (if shape f = [size_at xyz 0, size_at f 1, size_at xyz 1]
              then Inr (Tensor [size_at xyz 0, size_at f 1 + (if use_xyz then 3 else 0), 1, size_at xyz 1]
                          (group_all_data P use_xyz xyz features))
              else Inl (ExternalError ''GroupAll'')))
      else Inl (ExternalError ''GroupAll''))"

definition apply_grouper ::
  "prims \<Rightarrow> grouper \<Rightarrow> tensor \<Rightarrow> tensor option \<Rightarrow> tensor option \<Rightarrow> error + tensor" where
  "apply_grouper P g xyz new_xyz features =
     (case g of
        QueryAndGroup radius nsample use_xyz \<Rightarrow>
          query_and_group P radius nsample use_xyz xyz new_xyz features
      | GroupAll use_xyz \<Rightarrow> group_all P use_xyz xyz new_xyz features)"

text \<open>
  Modelled from the spec: 3-nearest-neighbour search,
  \<open>(query[B,N,3], reference[B,M,3]) -> (distances[B,N,3], indices[B,N,3])\<close>.
\<close>

definition three_nn :: "prims \<Rightarrow> tensor \<Rightarrow> tensor \<Rightarrow> error + tensor \<times> tensor" where
  "three_nn P unknown known =
     (if shape unknown = [size_at unknown 0, size_at unknown 1, 3]
         \<and> shape known = [size_at unknown 0, size_at known 1, 3]
      then Inr (Tensor [size_at unknown 0, size_at unknown 1, 3] (three_nn_dist P unknown known),
                Tensor [size_at unknown 0, size_at unknown 1, 3] (three_nn_idx P unknown known))
      else Inl (ExternalError ''three_nn''))"

text \<open>
  Modelled from the spec: weighted gather/interpolate, the per-index weighted sum of
  the gathered features: \<open>(features[B,C,M], indices[B,N,3], weights[B,N,3]) -> [B,C,N]\<close>.
\<close>

definition three_interpolate :: "prims \<Rightarrow> tensor \<Rightarrow> tensor \<Rightarrow> tensor \<Rightarrow> error + tensor" where
  "three_interpolate P feats idx weight =
     (if shape feats = [size_at idx 0, size_at feats 1, size_at feats 2]
         \<and> shape idx = [size_at idx 0, size_at idx 1, 3] \<and> shape weight = shape idx
      then Inr (Tensor [size_at idx 0, size_at feats 1, size_at idx 1] (three_interpolate_data P feats idx weight))
      else Inl (ExternalError ''three_interpolate''))"

text \<open>
  Modelled from the spec: a ChannelTransform is applied pointwise, maps its declared
  input width to its declared output width, and a tensor of another width is a
  configuration error at the forward call.  The layers are built on \<open>nn.Conv2d\<close>: their
  input is \<open>(B, C, H, W)\<close>.  A transform without a layer returns its input.
\<close>

definition cnn_apply :: "prims \<Rightarrow> cnn \<Rightarrow> tensor \<Rightarrow> error + tensor" where
  "cnn_apply P c x =
     (if length (cnn_spec c) < 2 then Inr x
      else if shape x = [size_at x 0, size_at x 1, size_at x 2, size_at x 3]
              \<and> int (size_at x 1) = in_width c
      then Inr (Tensor [size_at x 0, nat (out_width c), size_at x 2, size_at x 3]
                  (cnn_data P (cnn_spec c) x))
      else Inl (RuntimeError ''channel width''))"

text \<open>
  The channel widths in one scale of a stage: \<open>grouper_width\<close> is the width of what the
  grouper of the scale hands to the transform, the feature channels and, in
  relative-offset mode, three more; \<open>scale_width\<close> is the width of what the transform of
  scale \<open>k\<close> makes of it, which is the last entry of its width sequence \<open>mlps[k][-1]\<close>
  when the transform has a layer.
\<close>

definition grouper_width :: "grouper \<Rightarrow> tensor option \<Rightarrow> nat" where
  "grouper_width g features =
     feat_width features
       + (case g of
            QueryAndGroup radius nsample use_xyz \<Rightarrow> if use_xyz then 3 else 0
          | GroupAll use_xyz \<Rightarrow> if use_xyz then 3 else 0)"

definition scale_width :: "sa_module \<Rightarrow> tensor option \<Rightarrow> nat \<Rightarrow> nat" where
  "scale_width m features k =
     out_channels_of (mlps m ! k) (grouper_width (groupers m ! k) features)"

section \<open>The forward pass of a set-abstraction stage\<close>

definition sa_pool :: "string \<Rightarrow> tensor \<Rightarrow> error + tensor" where
  "sa_pool pm x =
     (if pm = ''max_pool'' then max_pool2d x
      else if pm = ''avg_pool'' then avg_pool2d x
      else Inl NotImplementedError)"

text \<open>The loop \<open>for i in range(len(self.groupers))\<close>; \<open>acc\<close> is \<open>new_features_list\<close>.\<close>

fun sa_scale_loop ::
  "prims \<Rightarrow> sa_module \<Rightarrow> tensor \<Rightarrow> tensor option \<Rightarrow> tensor option \<Rightarrow> nat list \<Rightarrow>
   tensor list \<Rightarrow> error + tensor list" where
  "sa_scale_loop P m xyz new_xyz features [] acc = Inr acc"
| "sa_scale_loop P m xyz new_xyz features (i # is) acc =
     bind_err (py_get (groupers m) (int i)) (\<lambda>g.
     bind_err (apply_grouper P g xyz new_xyz features) (\<lambda>grouped.
     bind_err (py_get (mlps m) (int i)) (\<lambda>c.
     bind_err (cnn_apply P c grouped) (\<lambda>transformed.
     bind_err (sa_pool (pool_method m) transformed) (\<lambda>pooled.
       sa_scale_loop P m xyz new_xyz features is (acc @ [squeeze_last pooled]))))))"

text \<open>
  Without explicit centers and with a point count, the centers are
  \<open>pointnet2_utils.gather_operation(xyz_flipped, pointnet2_utils.furthest_point_sample(...))\<close>:
  the global name is read before any kernel is called.  Without a point count the
  conditional expression is \<open>None\<close> and the name is not read.  The groupers are objects
  that the constructor made: calling them reads no global name.
\<close>

definition PointnetSAModuleBase_forward ::
  "string list \<Rightarrow> prims \<Rightarrow> sa_module \<Rightarrow> tensor option \<Rightarrow> tensor option \<Rightarrow> tensor option \<Rightarrow>
   error + tensor option \<times> tensor" where
  "PointnetSAModuleBase_forward G P m xyz features new_xyz =
     (case xyz of
        None \<Rightarrow> Inl (AttributeError ''transpose'')
      | Some x \<Rightarrow>
         bind_err (transpose12 x) (\<lambda>xyz_flipped.
         bind_err
           (case new_xyz of
              Some c \<Rightarrow> Inr (Some c)
            | None \<Rightarrow>
               (case npoint m of
                  None \<Rightarrow> Inr None
                | Some np \<Rightarrow>
                    bind_err (read_global G ''pointnet2_utils'') (\<lambda>_.
                    bind_err (furthest_point_sample P x np) (\<lambda>idx.
                    bind_err (gather_operation P xyz_flipped idx) (\<lambda>g.
                    bind_err (transpose12 g) (\<lambda>c. Inr (Some c))))))) (\<lambda>new_xyz'.
         bind_err (sa_scale_loop P m x new_xyz' features [0 ..< length (groupers m)] [])
           (\<lambda>new_features_list.
         bind_err (cat_dim1 new_features_list) (\<lambda>new_features.
           Inr (new_xyz', new_features))))))"

section \<open>The forward pass of a feature-propagation stage\<close>

text \<open>
  \<open>dist_recip = 1.0 / (dist + 1e-8)\<close>, \<open>norm = torch.sum(dist_recip, dim=2, keepdim=True)\<close>,
  \<open>weight = dist_recip / norm\<close>, for the distances of one dense point and for the whole
  tensor of distances.  The distances are what \<open>three_nn\<close> returned, a \<open>(B, n, 3)\<close>
  tensor, so the dimension 2 that is summed over is the last one.
\<close>

definition dist_recip :: "real list \<Rightarrow> real list" where
  "dist_recip ds = map (\<lambda>d. 1 / (d + 1 / 10 ^ 8)) ds"

definition row_weight :: "real list \<Rightarrow> real list" where
  "row_weight ds = map (\<lambda>r. r / sum_list (dist_recip ds)) (dist_recip ds)"

definition interp_weight :: "tensor \<Rightarrow> error + tensor" where
  "interp_weight dists =
     (if length (shape dists) = 3
      then Inr (Tensor (shape dists) (concat (map row_weight (chunks (size_at dists 2) (elems dists)))))
      else Inl IndexError)"

text \<open>
  With known coordinates the first thing evaluated is the global name in
  \<open>pointnet2_utils.three_nn(unknown, known)\<close>, and the name is read once more for
  \<open>pointnet2_utils.three_interpolate\<close> after the weights are computed.
\<close>

definition PointnetFPModule_forward ::
  "string list \<Rightarrow> prims \<Rightarrow> fp_module \<Rightarrow> tensor option \<Rightarrow> tensor option \<Rightarrow> tensor option \<Rightarrow>
   tensor option \<Rightarrow> error + tensor" where
  "PointnetFPModule_forward G P fp unknown known unknow_feats known_feats =
     bind_err
       (case known of
          Some k \<Rightarrow>
            bind_err (read_global G ''pointnet2_utils'') (\<lambda>_.
              (case unknown of
                 None \<Rightarrow> Inl (ExternalError ''three_nn'')
               | Some u \<Rightarrow>
                   bind_err (three_nn P u k) (\<lambda>(dists, idx).
                   bind_err (interp_weight dists) (\<lambda>weight.
                   bind_err (read_global G ''pointnet2_utils'') (\<lambda>_.
                     (case known_feats of
                        None \<Rightarrow> Inl (ExternalError ''three_interpolate'')
                      | Some kf \<Rightarrow> three_interpolate P kf idx weight))))))
        | None \<Rightarrow>
            (case known_feats of
               None \<Rightarrow> Inl (AttributeError ''expand'')
             | Some kf \<Rightarrow>
                 (case unknown of
                    None \<Rightarrow> Inl (AttributeError ''size'')
                  | Some u \<Rightarrow>
                      (if length (shape u) < 2 then Inl IndexError
                       else expand_last kf (size_at u 1))))) (\<lambda>interpolated_feats.
     bind_err
       (case unknow_feats of
          Some uf \<Rightarrow> cat_dim1 [interpolated_feats, uf]
        | None \<Rightarrow> Inr interpolated_feats) (\<lambda>new_features.
     bind_err (cnn_apply P (fp_mlp fp) (unsqueeze_last new_features)) (\<lambda>out.
       Inr (squeeze_last out))))"

section \<open>The forward pass of the network\<close>

definition break_up_pc :: "tensor \<Rightarrow> error + tensor \<times> tensor option" where
  "break_up_pc pc =
     bind_err (slice_last_upto 3 pc) (\<lambda>xyz.
     bind_err (size_last pc) (\<lambda>c.
       if c > 3
       then bind_err (slice_last_from 3 pc) (\<lambda>f.
            bind_err (transpose12 f) (\<lambda>features. Inr (xyz, Some features)))
       else Inr (xyz, None)))"

text \<open>
  The encoder loop \<open>for i in range(len(self.SA_modules))\<close>; \<open>l_xyz\<close> and \<open>l_features\<close>
  grow by one entry in every round.
\<close>

fun sa_loop ::
  "string list \<Rightarrow> prims \<Rightarrow> sa_module list \<Rightarrow> nat list \<Rightarrow> tensor option list \<Rightarrow>
   tensor option list \<Rightarrow> error + tensor option list \<times> tensor option list" where
  "sa_loop G P sas [] l_xyz l_features = Inr (l_xyz, l_features)"
| "sa_loop G P sas (i # is) l_xyz l_features =
     bind_err (py_get sas (int i)) (\<lambda>m.
     bind_err (py_get l_xyz (int i)) (\<lambda>x.
     bind_err (py_get l_features (int i)) (\<lambda>f.
     bind_err (PointnetSAModuleBase_forward G P m x f None) (\<lambda>(li_xyz, li_features).
       sa_loop G P sas is (l_xyz @ [li_xyz]) (l_features @ [Some li_features])))))"

text \<open>
  The decoder loop \<open>for i in range(-1, -(len(self.FP_modules) + 1), -1)\<close>: the indices
  are negative, counted from the end of the module list and of the two depth lists.
  The right-hand side of the assignment is evaluated before the slot is written.
\<close>

definition fp_range :: "nat \<Rightarrow> int list" where
  "fp_range n = map (\<lambda>k. - int k) [1 ..< Suc n]"

fun fp_loop ::
  "string list \<Rightarrow> prims \<Rightarrow> fp_module list \<Rightarrow> int list \<Rightarrow> tensor option list \<Rightarrow>
   tensor option list \<Rightarrow> error + tensor option list" where
  "fp_loop G P fps [] l_xyz l_features = Inr l_features"
| "fp_loop G P fps (i # is) l_xyz l_features =
     bind_err (py_get fps i) (\<lambda>fp.
     bind_err (py_get l_xyz (i - 1)) (\<lambda>unknown.
     bind_err (py_get l_xyz i) (\<lambda>known.
     bind_err (py_get l_features (i - 1)) (\<lambda>unknow_feats.
     bind_err (py_get l_features i) (\<lambda>known_feats.
     bind_err (PointnetFPModule_forward G P fp unknown known unknow_feats known_feats) (\<lambda>out.
     bind_err (py_set l_features (i - 1) (Some out)) (\<lambda>l_features'.
       fp_loop G P fps is l_xyz l_features')))))))"

text \<open>The two depth lists after the encoder loop, and after both loops.\<close>

definition encode ::
  "string list \<Rightarrow> prims \<Rightarrow> pointnet2 \<Rightarrow> tensor \<Rightarrow>
   error + tensor option list \<times> tensor option list" where
  "encode G P net pointcloud =
     bind_err (break_up_pc pointcloud) (\<lambda>(xyz, features).
       sa_loop G P (SA_modules net) [0 ..< length (SA_modules net)] [Some xyz] [features])"

definition forward_lists ::
  "string list \<Rightarrow> prims \<Rightarrow> pointnet2 \<Rightarrow> tensor \<Rightarrow>
   error + tensor option list \<times> tensor option list" where
  "forward_lists G P net pointcloud =
     bind_err (encode G P net pointcloud) (\<lambda>(l_xyz, l_features).
     bind_err (fp_loop G P (FP_modules net) (fp_range (length (FP_modules net))) l_xyz l_features)
       (\<lambda>l_features'. Inr (l_xyz, l_features')))"

definition Pointnet2MSG_forward ::
  "string list \<Rightarrow> prims \<Rightarrow> pointnet2 \<Rightarrow> tensor \<Rightarrow> error + tensor option \<times> tensor option" where
  "Pointnet2MSG_forward G P net pointcloud =
     bind_err (forward_lists G P net pointcloud) (\<lambda>(l_xyz, l_features).
     bind_err (py_get l_xyz 0) (\<lambda>x.
     bind_err (py_get l_features 0) (\<lambda>f. Inr (x, f))))"

section \<open>Padded neighbourhoods\<close>

text \<open>
  Modelled from the spec: a ball query that finds fewer neighbours than its capacity
  pads the neighbourhood by repeating the first valid neighbour.  The transforms work
  on every neighbour alone, so in the tensor that is pooled the padded entries of a row
  repeat the first entry of the row.  \<open>pad_neighbours k x\<close> is \<open>x\<close> with \<open>k\<close> such
  entries added to every row of the neighbour dimension.
\<close>

definition pad_row :: "nat \<Rightarrow> real list \<Rightarrow> real list" where
  "pad_row k row = row @ replicate k (hd row)"

definition pad_neighbours :: "nat \<Rightarrow> tensor \<Rightarrow> tensor" where
  "pad_neighbours k x =
     Tensor (butlast (shape x) @ [last (shape x) + k])
       (concat (map (pad_row k) (chunks (last (shape x)) (elems x))))"

text \<open>A tensor is well formed when it has as many entries as its shape says.\<close>

definition wf_tensor :: "tensor \<Rightarrow> bool" where
  "wf_tensor t = (length (elems t) = prod_list (shape t))"

section \<open>The test run of the segmentation pipeline\<close>

text \<open>
  \<open>SemanticSegmentation.run_test\<close> calls into the model, the dataset, the logging and the
  data-loading libraries.  None of them is looked into: a call is answered by a
  parameter \<open>X\<close>, which is given the callee as the source writes it and the values of
  the arguments, and which returns a value or raises.
\<close>

datatype pyval = PNone | PBool bool | PInt int | PStr string | PObj nat | PList "pyval list"

type_synonym extcall = "string \<Rightarrow> pyval list \<Rightarrow> error + pyval"

fun truthy :: "pyval \<Rightarrow> bool" where
  "truthy PNone = False"
| "truthy (PBool b) = b"
| "truthy (PInt n) = (n \<noteq> 0)"
| "truthy (PStr s) = (s \<noteq> [])"
| "truthy (PObj a) = True"
| "truthy (PList vs) = (vs \<noteq> [])"

text \<open>
  What the run can leave behind: the handlers added to the module's logger, the two
  metric lists of the pipeline object (\<open>None\<close> as long as the run has not assigned
  them) and the results handed to \<open>dataset.save_test_result\<close>.
\<close>

record run_state =
  log_handlers :: "pyval list"
  test_accs :: "pyval list option"
  test_ious :: "pyval list option"
  saved_results :: "(pyval \<times> pyval) list"

type_synonym 'a run = "run_state \<Rightarrow> (error + 'a) \<times> run_state"

definition bind_run :: "'a run \<Rightarrow> ('a \<Rightarrow> 'b run) \<Rightarrow> 'b run" where
  "bind_run m f = (\<lambda>s. case m s of (Inl e, s') \<Rightarrow> (Inl e, s') | (Inr v, s') \<Rightarrow> f v s')"

definition lift_run :: "error + 'a \<Rightarrow> 'a run" where
  "lift_run r = (\<lambda>s. (r, s))"

text \<open>A step keeps the results when it leaves the metric lists and the saved results alone.\<close>

definition keeps_results :: "'a run \<Rightarrow> bool" where
  "keeps_results m =
     (\<forall>s. test_accs (snd (m s)) = test_accs s \<and> test_ious (snd (m s)) = test_ious s
          \<and> saved_results (snd (m s)) = saved_results s)"

text \<open>
  Names.  A name that the function body assigns somewhere is a local variable of the
  function; every other name is looked up among the names the module defines (its
  imports, \<open>log\<close> and the class) and then among the builtins, and raises \<open>NameError\<close>
  when it is in neither.  The lists are read off the source; of the builtins, those the
  function uses are listed.
\<close>

definition run_test_assigned :: "string list" where
  "run_test_assigned =
     [''model'', ''dataset'', ''device'', ''cfg'', ''timestamp'', ''metric'', ''log_file_path'',
      ''batcher'', ''test_dataset'', ''test_sampler'', ''test_split'', ''test_loader'',
      ''datset_split'', ''idx'', ''attr'', ''data'', ''results'', ''predict_label'', ''acc'',
      ''iou'']"

definition module_names :: "string list" where
  "module_names =
     [''torch'', ''pickle'', ''nn'', ''np'', ''logging'', ''sys'', ''warnings'', ''datetime'',
      ''tqdm'', ''SummaryWriter'', ''Dataset'', ''IterableDataset'', ''DataLoader'', ''Path'',
      ''confusion_matrix'', ''exists'', ''join'', ''isfile'', ''dirname'', ''abspath'',
      ''BasePipeline'', ''get_sampler'', ''TorchDataloader'', ''DefaultBatcher'',
      ''ConcatBatcher'', ''latest_torch_ckpt'', ''SemSegLoss'', ''SemSegMetric'', ''make_dir'',
      ''LogRecord'', ''Config'', ''PIPELINE'', ''get_runid'', ''code2md'', ''DataProcessing'',
      ''log'', ''SemanticSegmentation'']"

definition builtin_names :: "string list" where
  "builtin_names = [''range'', ''len'', ''True'', ''None'']"

text \<open>
  Reading a name that the model has not bound as a variable: a local variable before
  its assignment, or a name of the module or a builtin, whose value is written as the
  name itself.
\<close>

definition read_name :: "string \<Rightarrow> error + pyval" where
  "read_name n =
     (if n \<in> set run_test_assigned then Inl (UnboundLocalError n)
      else if n \<in> set module_names \<or> n \<in> set builtin_names then Inr (PStr n)
      else Inl (NameError n))"

text \<open>A call of a function that the module imported: the name is looked up first.\<close>

definition call_global :: "extcall \<Rightarrow> string \<Rightarrow> pyval list \<Rightarrow> pyval run" where
  "call_global X f args = lift_run (bind_err (read_name f) (\<lambda>_. X (f @ ''()'') args))"

text \<open>A method call or an attribute access on a value that is at hand.\<close>

definition ext :: "extcall \<Rightarrow> string \<Rightarrow> pyval list \<Rightarrow> pyval run" where
  "ext X f args = lift_run (X f args)"

definition add_handler :: "pyval \<Rightarrow> pyval run" where
  "add_handler h = (\<lambda>s. (Inr PNone, s\<lparr>log_handlers := log_handlers s @ [h]\<rparr>))"

definition init_test_lists :: "pyval run" where
  "init_test_lists = (\<lambda>s. (Inr PNone, s\<lparr>test_accs := Some [], test_ious := Some []\<rparr>))"

definition append_metrics :: "pyval \<Rightarrow> pyval \<Rightarrow> pyval run" where
  "append_metrics acc iou =
     (\<lambda>s. case (test_accs s, test_ious s) of
             (Some accs, Some ious) \<Rightarrow>
               (Inr PNone, s\<lparr>test_accs := Some (accs @ [acc]), test_ious := Some (ious @ [iou])\<rparr>)
           | _ \<Rightarrow> (Inl (AttributeError ''test_accs''), s))"

definition save_test_result :: "extcall \<Rightarrow> pyval \<Rightarrow> pyval \<Rightarrow> pyval \<Rightarrow> pyval run" where
  "save_test_result X dataset results attr =
     bind_run (ext X ''dataset.save_test_result'' [dataset, results, attr]) (\<lambda>_.
       (\<lambda>s. (Inr PNone, s\<lparr>saved_results := saved_results s @ [(results, attr)]\<rparr>)))"

text \<open>The statements of the function up to the construction of \<open>test_split\<close>.\<close>

definition run_test_setup ::
  "extcall \<Rightarrow> pyval \<Rightarrow> (pyval \<times> pyval \<times> pyval \<times> pyval \<times> pyval \<times> pyval) run" where
  "run_test_setup X self =
     bind_run (ext X ''self.model'' [self]) (\<lambda>model.
     bind_run (ext X ''self.dataset'' [self]) (\<lambda>dataset.
     bind_run (ext X ''self.device'' [self]) (\<lambda>device.
     bind_run (ext X ''self.cfg'' [self]) (\<lambda>cfg.
     bind_run (ext X ''model.device = device'' [model, device]) (\<lambda>_.
     bind_run (ext X ''model.to'' [model, device]) (\<lambda>_.
     bind_run (ext X ''datetime.now().strftime'' [PStr ''%Y-%m-%d_%H:%M:%S'']) (\<lambda>timestamp.
     bind_run (call_global X ''SemSegMetric'' [self, model, dataset, device]) (\<lambda>metric.
     bind_run (ext X ''log.info'' [PStr ''DEVICE : {}'', device]) (\<lambda>_.
     bind_run (ext X ''cfg.logs_dir'' [cfg]) (\<lambda>logs_dir.
     bind_run (call_global X ''join'' [logs_dir, PStr ''log_test_'', timestamp, PStr ''.txt''])
       (\<lambda>log_file_path.
     bind_run (ext X ''log.info'' [PStr ''Logging in file : {}'', log_file_path]) (\<lambda>_.
     bind_run (ext X ''logging.FileHandler'' [log_file_path]) (\<lambda>handler.
     bind_run (ext X ''log.addHandler'' [handler]) (\<lambda>_.
     bind_run (add_handler handler) (\<lambda>_.
     bind_run (ext X ''self.get_batcher'' [self, device, PStr ''test'']) (\<lambda>batcher.
     bind_run (ext X ''dataset.get_split'' [dataset, PStr ''test'']) (\<lambda>test_dataset.
     bind_run (ext X ''test_dataset.sampler'' [test_dataset]) (\<lambda>test_sampler.
       lift_run (Inr (model, dataset, cfg, metric, test_dataset, test_sampler))
     ))))))))))))))))))"

text \<open>
  \<open>test_split = TorchDataloader(dataset=test_dataset, preprocess=model.preprocess,
  transform=model.transform, sampler=train_sampler, ...)\<close>: the callee, then the
  arguments from left to right, then the call.
\<close>

definition make_test_split :: "extcall \<Rightarrow> pyval \<Rightarrow> pyval \<Rightarrow> pyval \<Rightarrow> pyval run" where
  "make_test_split X model dataset test_dataset =
     bind_run (lift_run (read_name ''TorchDataloader'')) (\<lambda>_.
     bind_run (ext X ''model.preprocess'' [model]) (\<lambda>preprocess.
     bind_run (ext X ''model.transform'' [model]) (\<lambda>transform.
     bind_run (lift_run (read_name ''train_sampler'')) (\<lambda>train_sampler.
     bind_run (ext X ''dataset.cfg.use_cache'' [dataset]) (\<lambda>use_cache.
     bind_run (ext X ''dataset.cfg.get'' [dataset, PStr ''steps_per_epoch_train'', PNone])
       (\<lambda>steps.
       ext X ''TorchDataloader()''
         [test_dataset, preprocess, transform, train_sampler, use_cache, steps]))))))"

definition make_test_loader :: "extcall \<Rightarrow> pyval \<Rightarrow> pyval \<Rightarrow> pyval \<Rightarrow> pyval run" where
  "make_test_loader X self cfg test_split =
     bind_run (lift_run (read_name ''DataLoader'')) (\<lambda>_.
     bind_run (ext X ''cfg.batch_size'' [cfg]) (\<lambda>batch_size.
     bind_run (lift_run (read_name ''train_sampler'')) (\<lambda>train_sampler.
     bind_run (call_global X ''get_sampler'' [train_sampler]) (\<lambda>sampler.
     bind_run (ext X ''self.batcher.collate_fn'' [self]) (\<lambda>collate_fn.
       ext X ''DataLoader()'' [test_split, batch_size, sampler, collate_fn])))))"

text \<open>The body of \<open>for idx in tqdm(range(len(test_split)), desc='test')\<close>.\<close>

definition test_example ::
  "extcall \<Rightarrow> pyval \<Rightarrow> pyval \<Rightarrow> pyval \<Rightarrow> pyval \<Rightarrow> pyval \<Rightarrow> nat \<Rightarrow> pyval run" where
  "test_example X self cfg dataset metric datset_split idx =
     bind_run (ext X ''datset_split.get_attr'' [datset_split, PInt (int idx)]) (\<lambda>attr.
     bind_run (ext X ''cfg.get'' [cfg, PStr ''test_continue'', PBool True]) (\<lambda>cont.
     bind_run (if truthy cont then ext X ''dataset.is_tested'' [dataset, attr]
               else lift_run (Inr cont)) (\<lambda>skip.
       if truthy skip then lift_run (Inr PNone)
       else
         bind_run (ext X ''datset_split.get_data'' [datset_split, PInt (int idx)]) (\<lambda>data.
         bind_run (ext X ''self.run_inference'' [self, data]) (\<lambda>results.
         bind_run (ext X ''results[predict_labels]'' [results]) (\<lambda>predict_label.
         bind_run (ext X ''cfg.get'' [cfg, PStr ''test_compute_metric'', PBool True]) (\<lambda>cm.
         bind_run
           (if truthy cm
            then bind_run (ext X ''data[label]'' [data]) (\<lambda>label.
                 bind_run (ext X ''metric.acc_np_label'' [metric, predict_label, label]) (\<lambda>acc.
                 bind_run (ext X ''data[label]'' [data]) (\<lambda>label'.
                 bind_run (ext X ''metric.iou_np_label'' [metric, predict_label, label']) (\<lambda>iou.
                   append_metrics acc iou))))
            else lift_run (Inr PNone)) (\<lambda>_.
           save_test_result X dataset results attr))))))))"

fun test_loop ::
  "extcall \<Rightarrow> pyval \<Rightarrow> pyval \<Rightarrow> pyval \<Rightarrow> pyval \<Rightarrow> pyval \<Rightarrow> nat list \<Rightarrow> pyval run" where
  "test_loop X self cfg dataset metric datset_split [] = lift_run (Inr PNone)"
| "test_loop X self cfg dataset metric datset_split (idx # idxs) =
     bind_run (test_example X self cfg dataset metric datset_split idx) (\<lambda>_.
       test_loop X self cfg dataset metric datset_split idxs)"

definition py_len :: "extcall \<Rightarrow> pyval \<Rightarrow> nat run" where
  "py_len X v =
     lift_run (bind_err (read_name ''len'') (\<lambda>_.
               bind_err (X ''len()'' [v]) (\<lambda>r.
                 case r of PInt n \<Rightarrow> (if 0 \<le> n then Inr (nat n) else Inl (ExternalError ''len''))
                         | _ \<Rightarrow> Inl (ExternalError ''len''))))"

definition run_test :: "extcall \<Rightarrow> pyval \<Rightarrow> pyval run" where
  "run_test X self =
     bind_run (run_test_setup X self) (\<lambda>(model, dataset, cfg, metric, test_dataset, test_sampler).
     bind_run (make_test_split X model dataset test_dataset) (\<lambda>test_split.
     bind_run (make_test_loader X self cfg test_split) (\<lambda>test_loader.
     bind_run (ext X ''model.cfg.ckpt_path'' [model]) (\<lambda>ckpt_path.
     bind_run (ext X ''self.load_ckpt'' [self, ckpt_path]) (\<lambda>_.
     bind_run (ext X ''self.dataset.get_split'' [self, PStr ''test'']) (\<lambda>datset_split.
     bind_run (ext X ''log.info'' [PStr ''Started testing'']) (\<lambda>_.
     bind_run init_test_lists (\<lambda>_.
     bind_run (py_len X test_split) (\<lambda>n.
     bind_run (test_loop X self cfg dataset metric datset_split [0 ..< n]) (\<lambda>_.
     bind_run (ext X ''cfg.get'' [cfg, PStr ''test_compute_metric'', PBool True]) (\<lambda>cm.
       if truthy cm
       then bind_run (ext X ''log.info(test acc)'' [self]) (\<lambda>_.
              ext X ''log.info(test iou)'' [self])
       else lift_run (Inr PNone))))))))))))"

section \<open>Concrete inputs\<close>

text \<open>A store in which no list has entries yet.\<close>

definition empty_store :: store where
  "empty_store = (\<lambda>r. [])"

text \<open>
  Kernels for trying the model out: every kernel returns zeros, as many as the shape of
  its result asks for.
\<close>

definition zeros :: "nat \<Rightarrow> real list" where
  "zeros n = replicate n 0"

definition zero_prims :: prims where
  "zero_prims =
     \<lparr>fps_data = (\<lambda>xyz n. zeros (size_at xyz 0 * n)),
      gather_data = (\<lambda>feats idx. zeros (size_at feats 0 * size_at feats 1 * size_at idx 1)),
      query_group_data = (\<lambda>radius nsample use_xyz xyz c f.
         zeros (size_at xyz 0 * (feat_width f + (if use_xyz then 3 else 0)) * size_at c 1
                * nsample)),
      group_all_data = (\<lambda>use_xyz xyz f.
         zeros (size_at xyz 0 * (feat_width f + (if use_xyz then 3 else 0)) * size_at xyz 1)),
      three_nn_dist = (\<lambda>u k. zeros (size_at u 0 * size_at u 1 * 3)),
      three_nn_idx = (\<lambda>u k. zeros (size_at u 0 * size_at u 1 * 3)),
      three_interpolate_data = (\<lambda>feats idx w.
         zeros (size_at idx 0 * size_at feats 1 * size_at idx 1)),
      cnn_data = (\<lambda>spec x. zeros (size_at x 0 * nat (last spec) * size_at x 2 * size_at x 3))\<rparr>"

text \<open>
  A store in which the list object \<open>0\<close> is \<open>[4, 8]\<close> and one in which it is \<open>[1, 2]\<close>.
\<close>

definition list_4_8 :: store where
  "list_4_8 = empty_store(0 := [4, 8])"

definition list_1_2 :: store where
  "list_1_2 = empty_store(0 := [1, 2])"

text \<open>
  Stages without a scale, as \<open>PointnetSAModuleMSG(npoint=np, radii=[], nsamples=[],
  mlps=[], pool_method=pool)\<close> builds them.
\<close>

definition bare_stage :: "int option \<Rightarrow> string \<Rightarrow> sa_module" where
  "bare_stage np pool = \<lparr>npoint = np, groupers = [], mlps = [], pool_method = pool\<rparr>"

text \<open>
  A global stage with one scale, the stage of
  \<open>PointnetSAModuleMSG(npoint=None, radii=[100], nsamples=[64], mlps=[[1, 2]])\<close>,
  a cloud of three points, and one feature channel for it.
\<close>

definition global_stage :: sa_module where
  "global_stage = \<lparr>npoint = None, groupers = [GroupAll True], mlps = [\<lparr>cnn_spec = [4, 2]\<rparr>],
                   pool_method = ''max_pool''\<rparr>"

definition three_points :: tensor where
  "three_points = Tensor [1, 3, 3] [0, 0, 0, 1, 0, 0, 0, 1, 0]"

definition one_feature :: tensor where
  "one_feature = Tensor [1, 1, 3] [7, 8, 9]"

text \<open>
  A configuration of three stages: two scales in the first stage, a global last stage,
  for four feature channels.  \<open>partial_net\<close> is the network of
  \<open>Pointnet2MSG(in_channels=4, use_xyz=True, SA_config=small_cfg, fp_mlps=[[5]])\<close>
  and \<open>full_net\<close> the one of \<open>fp_mlps=[[5], [6], [7]]\<close>.  \<open>bare_cfg\<close> has the same three
  stages without any scale, and \<open>bare_net\<close> is the network of
  \<open>Pointnet2MSG(in_channels=4, use_xyz=True, SA_config=bare_cfg, fp_mlps=[[5]])\<close>.
  \<open>cloud\<close> is a batch of one cloud of three points, each with its coordinates and four
  features; \<open>cloud_xyz\<close> and \<open>cloud_features\<close> are its two parts.
\<close>

definition bare_cfg :: sa_config where
  "bare_cfg = \<lparr>cfg_npoints = [Some 2, Some 1, None], cfg_radius = [[], [], []],
               cfg_nsample = [[], [], []], cfg_mlps = [[], [], []]\<rparr>"

definition bare_net :: pointnet2 where
  "bare_net =
     \<lparr>SA_modules = [bare_stage (Some 2) ''max_pool'', bare_stage (Some 1) ''max_pool'',
                    bare_stage None ''max_pool''],
      FP_modules = [\<lparr>fp_mlp = \<lparr>cnn_spec = [4, 5]\<rparr>\<rparr>],
      skip_channel_list = [4, 0, 0, 0]\<rparr>"

definition small_cfg :: sa_config where
  "small_cfg = \<lparr>cfg_npoints = [Some 2, Some 1, None], cfg_radius = [[1, 2], [2], [3]],
                cfg_nsample = [[2, 3], [2], [2]], cfg_mlps = [[[8], [6]], [[4]], [[16]]]\<rparr>"

definition small_sa_modules :: "sa_module list" where
  "small_sa_modules =
     [\<lparr>npoint = Some 2, groupers = [QueryAndGroup 1 2 True, QueryAndGroup 2 3 True],
       mlps = [\<lparr>cnn_spec = [7, 8]\<rparr>, \<lparr>cnn_spec = [7, 6]\<rparr>], pool_method = ''max_pool''\<rparr>,
      \<lparr>npoint = Some 1, groupers = [QueryAndGroup 2 2 True],
       mlps = [\<lparr>cnn_spec = [17, 4]\<rparr>], pool_method = ''max_pool''\<rparr>,
      \<lparr>npoint = None, groupers = [GroupAll True],
       mlps = [\<lparr>cnn_spec = [7, 16]\<rparr>], pool_method = ''max_pool''\<rparr>]"

definition partial_net :: pointnet2 where
  "partial_net =
     \<lparr>SA_modules = small_sa_modules,
      FP_modules = [\<lparr>fp_mlp = \<lparr>cnn_spec = [20, 5]\<rparr>\<rparr>],
      skip_channel_list = [4, 14, 4, 16]\<rparr>"

definition full_net :: pointnet2 where
  "full_net =
     \<lparr>SA_modules = small_sa_modules,
      FP_modules = [\<lparr>fp_mlp = \<lparr>cnn_spec = [10, 5]\<rparr>\<rparr>, \<lparr>fp_mlp = \<lparr>cnn_spec = [21, 6]\<rparr>\<rparr>,
                    \<lparr>fp_mlp = \<lparr>cnn_spec = [20, 7]\<rparr>\<rparr>],
      skip_channel_list = [4, 14, 4, 16]\<rparr>"

definition cloud :: tensor where
  "cloud = Tensor [1, 3, 7]
     [0, 0, 0, 1, 2, 3, 4,
      1, 0, 0, 5, 6, 7, 8,
      0, 1, 0, 9, 10, 11, 12]"

definition cloud_xyz :: tensor where
  "cloud_xyz = Tensor [1, 3, 3] [0, 0, 0, 1, 0, 0, 0, 1, 0]"

definition cloud_features :: tensor where
  "cloud_features = Tensor [1, 4, 3] [1, 5, 9, 2, 6, 10, 3, 7, 11, 4, 8, 12]"

text \<open>
  Two answers of the outside world for the test run: one in which every call returns
  \<open>None\<close>, and one in which the dataset has no test split, and a state in which
  nothing has been run yet.
\<close>

definition all_succeed :: extcall where
  "all_succeed = (\<lambda>f args. Inr PNone)"

definition no_test_split :: extcall where
  "no_test_split =
     (\<lambda>f args. if f = ''dataset.get_split'' then Inl (ExternalError ''get_split'') else Inr PNone)"

definition fresh_run :: run_state where
  "fresh_run = \<lparr>log_handlers = [], test_accs = None, test_ious = None, saved_results = []\<rparr>"



section \<open>Construction of a set-abstraction stage: the checks\<close>

lemma show_nat_fuel_nonempty: "show_nat_fuel f n \<noteq> []"
  by (cases f) auto

lemma show_nat_nonempty: "show_nat n \<noteq> []"
  by (simp add: show_nat_def show_nat_fuel_nonempty)

lemma empty_message_names_nothing: "error_message e = [] \<Longrightarrow> \<not> names_index e i"
  by (simp add: names_index_def show_nat_nonempty)

lemma read_pointnet2_utils_shipped:
  "read_global shipped ''pointnet2_utils'' = Inl (NameError ''pointnet2_utils'')"
  by (simp add: read_global_def shipped_def pointnet_names_def)

lemma read_pointnet2_utils_with_kernels:
  "read_global with_kernels ''pointnet2_utils'' = Inr ()"
  by (simp add: read_global_def with_kernels_def)

text \<open>
  C5 as the spec states it fails.  The constructor is called with two radii, one
  capacity and one width sequence: the error that ends the call has no message, so it
  names no stage index.  The same holds when the network is constructed with these
  lists for its stage 0: the error that comes out does not name the index 0.
\<close>

theorem stage_index_not_named_counterexample:
  "PointnetSAModuleMSG_init shipped list_4_8 (Some 2) [1, 2] [4] [0] True ''max_pool''
     = (Inl (AssertionError []), list_4_8)
   \<and> error_message (AssertionError []) = []
   \<and> \<not> names_index (AssertionError []) 0
   \<and> Pointnet2MSG_init shipped 4 True
        \<lparr>cfg_npoints = [Some 2], cfg_radius = [[1, 2]], cfg_nsample = [[4]], cfg_mlps = [[[8]]]\<rparr> []
       = Inl (AssertionError [])"
  by (simp add: Pointnet2MSG_init_def bind_err_def py_get_def py_index_def
      PointnetSAModuleMSG_init_def fresh_store_def empty_message_names_nothing)

text \<open>
  C5, as the code has it.  When the list of radii, the list of capacities and the list
  of width sequences do not all have the same length, the constructor of a multiscale
  stage fails before it builds or changes anything, whatever names are bound: no stage
  object is produced and the store is as before.  The failure is the bare
  \<open>AssertionError\<close> of the \<open>assert\<close> statement; it has no message, so it names no stage
  index.
\<close>

theorem sa_init_length_mismatch:
  assumes "\<not> (length radii = length nsamples \<and> length nsamples = length mlps')"
  shows "PointnetSAModuleMSG_init G h np radii nsamples mlps' use_xyz pool
           = (Inl (AssertionError []), h)
         \<and> error_message (AssertionError []) = []
         \<and> \<not> names_index (AssertionError []) i"
  using assms by (simp add: PointnetSAModuleMSG_init_def empty_message_names_nothing)

theorem sa_init_length_mismatch_witness:
  "\<not> (length [1, 2 :: real] = length [4 :: int] \<and> length [4 :: int] = length [0 :: nat])
   \<and> PointnetSAModuleMSG_init shipped empty_store (Some 2) [1, 2] [4] [0] True ''max_pool''
       = (Inl (AssertionError []), empty_store)
   \<and> error_message (AssertionError []) = []
   \<and> \<not> names_index (AssertionError []) 0"
proof -
  have h: "\<not> (length [1, 2 :: real] = length [4 :: int] \<and> length [4 :: int] = length [0 :: nat])"
    by simp
  show ?thesis
    using h sa_init_length_mismatch [OF h, of shipped empty_store "Some 2" True "''max_pool''" 0]
    by simp
qed

section \<open>Construction of a set-abstraction stage: the effect on its arguments\<close>

lemma add3_first_Inr:
  "add3_first h r = Inr h' \<Longrightarrow> h r \<noteq> [] \<and> h' = h(r := (hd (h r) + 3) # tl (h r))"
  by (auto simp: add3_first_def split: list.splits)

text \<open>
  With the name \<open>pointnet2_utils\<close> unbound, the first round of the loop of the
  constructor ends in the \<open>NameError\<close> and leaves the store as it was.
\<close>

lemma sa_init_loop_unbound:
  "sa_init_loop shipped np use_xyz (radius # radii) (nsample # nsamples) (r # refs) h gs ms
     = (Inl (NameError ''pointnet2_utils''), h)"
  by (simp add: read_pointnet2_utils_shipped)

lemma sa_init_unbound:
  assumes "length radii = length nsamples" and "length nsamples = length refs" and "refs \<noteq> []"
  shows "PointnetSAModuleMSG_init shipped h np radii nsamples refs use_xyz pool
           = (Inl (NameError ''pointnet2_utils''), h)"
proof -
  from assms obtain r refs' rd radii' ns nsamples' where
    "refs = r # refs'" "radii = rd # radii'" "nsamples = ns # nsamples'"
    by (cases refs; cases radii; cases nsamples) auto
  with assms show ?thesis
    by (simp add: PointnetSAModuleMSG_init_def read_pointnet2_utils_shipped)
qed

text \<open>
  What the loop writes when it gets through, that is, when the name is bound: the list
  behind \<open>mlps[i]\<close> keeps its tail, and its first entry grows by 3 for every scale whose
  entry of \<open>mlps\<close> is that list object.
\<close>

lemma sa_init_loop_store:
  assumes "sa_init_loop G np True radii nsamples refs h gs ms = (Inr res, h')"
      and "length radii = length refs" and "length nsamples = length refs"
  shows "h' r = (if r \<in> set refs then (hd (h r) + 3 * int (count_list refs r)) # tl (h r) else h r)
         \<and> (r \<in> set refs \<longrightarrow> h r \<noteq> [])"
  using assms
proof (induction refs arbitrary: radii nsamples h gs ms)
  case Nil
  then show ?case by simp
next
  case (Cons a refs)
  from Cons.prems obtain rd radii' ns nsamples' where
    eqs: "radii = rd # radii'" "nsamples = ns # nsamples'"
    by (cases radii; cases nsamples) auto
  from Cons.prems(1) eqs obtain h1 c where
    h1: "add3_first h a = Inr h1" and
    rest: "sa_init_loop G np True radii' nsamples' refs h1
             (gs @ [if np \<noteq> None then QueryAndGroup rd ns True else GroupAll True]) (ms @ [c])
           = (Inr res, h')"
    by (auto simp: Let_def split: sum.splits)
  from add3_first_Inr [OF h1] have ne: "h a \<noteq> []"
    and h1_eq: "h1 = h(a := (hd (h a) + 3) # tl (h a))"
    by auto
  from Cons.prems eqs have lens: "length radii' = length refs" "length nsamples' = length refs"
    by auto
  note IH = Cons.IH [OF rest lens]
  show ?case
    using IH ne by (auto simp: h1_eq)
qed



section \<open>Rows of the last dimension\<close>

lemma chunks_Nil [simp]: "chunks K [] = []"
  by (simp add: chunks.simps)

lemma chunks_zero [simp]: "chunks 0 xs = []"
  by (simp add: chunks.simps)

lemma chunks_step: "0 < K \<Longrightarrow> xs \<noteq> [] \<Longrightarrow> chunks K xs = take K xs # chunks K (drop K xs)"
  by (subst chunks.simps) simp

lemma chunks_concat:
  "0 < K \<Longrightarrow> \<forall>r \<in> set rows. length r = K \<Longrightarrow> chunks K (concat rows) = rows"
proof (induction rows)
  case Nil
  then show ?case by simp
next
  case (Cons r rows)
  then have "r \<noteq> []" by auto
  then have "r @ concat rows \<noteq> []" by simp
  then have "chunks K (r @ concat rows) = take K (r @ concat rows) # chunks K (drop K (r @ concat rows))"
    using Cons.prems(1) by (rule chunks_step [rotated])
  with Cons show ?case by simp
qed

lemma chunks_rows:
  "0 < K \<Longrightarrow> length xs = n * K \<Longrightarrow>
     length (chunks K xs) = n \<and> (\<forall>r \<in> set (chunks K xs). length r = K) \<and> concat (chunks K xs) = xs"
proof (induction n arbitrary: xs)
  case 0
  then show ?case by simp
next
  case (Suc n)
  then have ne: "xs \<noteq> []" by auto
  have len: "length (drop K xs) = n * K" using Suc.prems by simp
  have tk: "length (take K xs) = K" using Suc.prems by simp
  have "chunks K xs = take K xs # chunks K (drop K xs)"
    using Suc.prems(1) ne by (rule chunks_step)
  with Suc.IH [OF Suc.prems(1) len] tk show ?case
    by simp
qed

lemma sum_list_divide: "sum_list (map (\<lambda>x. x / s) xs) = sum_list xs / (s :: real)"
  by (induction xs) (simp_all add: add_divide_distrib)

lemma dist_recip_pos: "\<forall>d \<in> set ds. 0 \<le> d \<Longrightarrow> \<forall>r \<in> set (dist_recip ds). 0 < r"
  by (auto simp: dist_recip_def intro!: divide_pos_pos add_nonneg_pos)

lemma sum_list_pos_real: "xs \<noteq> [] \<Longrightarrow> \<forall>x \<in> set xs. 0 < (x :: real) \<Longrightarrow> 0 < sum_list xs"
proof (induction xs)
  case Nil
  then show ?case by simp
next
  case (Cons x xs)
  then have "0 < x" and "0 \<le> sum_list xs" by (auto intro: sum_list_nonneg less_imp_le)
  then show ?case by simp
qed

lemma row_weight_ok:
  assumes "ds \<noteq> []" and "\<forall>d \<in> set ds. 0 \<le> d"
  shows "length (row_weight ds) = length ds \<and> (\<forall>w \<in> set (row_weight ds). 0 < w)
         \<and> sum_list (row_weight ds) = 1"
proof -
  let ?r = "dist_recip ds"
  have pos: "\<forall>r \<in> set ?r. 0 < r" using assms(2) by (rule dist_recip_pos)
  have ne: "?r \<noteq> []" using assms(1) by (simp add: dist_recip_def)
  have s: "0 < sum_list ?r" using ne pos by (rule sum_list_pos_real)
  have "sum_list (row_weight ds) = sum_list ?r / sum_list ?r"
    by (simp add: row_weight_def sum_list_divide)
  with s have one: "sum_list (row_weight ds) = 1" by simp
  have "\<forall>w \<in> set (row_weight ds). 0 < w"
    using pos s by (auto simp: row_weight_def)
  moreover have "length (row_weight ds) = length ds"
    by (simp add: row_weight_def dist_recip_def)
  ultimately show ?thesis using one by simp
qed

section \<open>Interpolation weights\<close>

text \<open>
  C6.  The distances that \<open>three_nn\<close> returns are a \<open>(B, n, 3)\<close> tensor, three for every
  dense point.  When none of them is negative, the weights computed from them form a
  tensor of the same shape, and for every dense point the three weights
  \<open>(1 / (d\<^sub>j + 1e-8)) / \<Sum>\<^sub>k (1 / (d\<^sub>k + 1e-8))\<close> are strictly positive (a distance of
  zero included) and sum to exactly 1.  Entries are real numbers here: the rounding of
  the implementation is outside this statement.
\<close>

theorem interp_weight_positive_sum_one:
  assumes "shape dists = [B, n, 3]" and "wf_tensor dists" and "\<forall>d \<in> set (elems dists). 0 \<le> d"
  shows "\<exists>w. interp_weight dists = Inr w \<and> shape w = [B, n, 3]
           \<and> chunks 3 (elems w) = map row_weight (chunks 3 (elems dists))
           \<and> length (chunks 3 (elems w)) = B * n
           \<and> (\<forall>row \<in> set (chunks 3 (elems w)).
                 length row = 3 \<and> (\<forall>x \<in> set row. 0 < x) \<and> sum_list row = 1)"
proof -
  let ?rows = "chunks 3 (elems dists)"
  have len: "length (elems dists) = (B * n) * 3"
    using assms(1,2) by (simp add: wf_tensor_def)
  have rows: "length ?rows = B * n" "\<forall>r \<in> set ?rows. length r = 3"
    using chunks_rows [of 3 "elems dists" "B * n"] len by auto
  have nonneg: "\<forall>r \<in> set ?rows. \<forall>d \<in> set r. 0 \<le> d"
  proof -
    have "concat ?rows = elems dists" using chunks_rows [of 3 "elems dists" "B * n"] len by auto
    then have "set (elems dists) = (\<Union>r \<in> set ?rows. set r)" by (metis set_concat)
    with assms(3) show ?thesis by auto
  qed
  have ok: "\<forall>r \<in> set ?rows. length (row_weight r) = 3 \<and> (\<forall>w \<in> set (row_weight r). 0 < w)
         \<and> sum_list (row_weight r) = 1"
  proof
    fix r assume r: "r \<in> set ?rows"
    then have l: "length r = 3" using rows by auto
    then have "r \<noteq> []" by auto
    moreover have "\<forall>d \<in> set r. 0 \<le> d" using nonneg r by auto
    ultimately show "length (row_weight r) = 3 \<and> (\<forall>w \<in> set (row_weight r). 0 < w)
         \<and> sum_list (row_weight r) = 1" using row_weight_ok [of r] l by simp
  qed
  let ?w = "Tensor [B, n, 3] (concat (map row_weight ?rows))"
  have ch: "chunks 3 (elems ?w) = map row_weight ?rows"
    using ok by (simp add: chunks_concat)
  have "interp_weight dists = Inr ?w"
    using assms(1) by (simp add: interp_weight_def size_at_def)
  moreover have "\<forall>row \<in> set (chunks 3 (elems ?w)).
                 length row = 3 \<and> (\<forall>x \<in> set row. 0 < x) \<and> sum_list row = 1"
    unfolding ch using ok by auto
  moreover have "length (chunks 3 (elems ?w)) = B * n"
    unfolding ch using rows by simp
  ultimately show ?thesis using ch by (intro exI [of _ ?w]) simp
qed

theorem interp_weight_positive_sum_one_witness:
  "shape (Tensor [1, 1, 3] [0, 1, 3]) = [1, 1, 3] \<and> wf_tensor (Tensor [1, 1, 3] [0, 1, 3]) \<and>
   (\<exists>w. interp_weight (Tensor [1, 1, 3] [0, 1, 3]) = Inr w \<and> shape w = [1, 1, 3]
        \<and> length (chunks 3 (elems w)) = 1)"
proof -
  let ?t = "Tensor [1, 1, 3] [0, 1, 3]"
  have h1: "shape ?t = [1, 1, 3]" by simp
  have h2: "wf_tensor ?t" by (simp add: wf_tensor_def)
  have h3: "\<forall>d \<in> set (elems ?t). 0 \<le> d" by simp
  from interp_weight_positive_sum_one [OF h1 h2 h3]
  obtain w where "interp_weight ?t = Inr w" "shape w = [1, 1, 3]"
    "length (chunks 3 (elems w)) = 1 * 1" by blast
  with h1 h2 show ?thesis by auto
qed

section \<open>Pooling over padded neighbourhoods\<close>

lemma Max_pad_row: "row \<noteq> [] \<Longrightarrow> Max (set (pad_row k row)) = Max (set row)"
proof -
  assume "row \<noteq> []"
  then have "hd row \<in> set row" by simp
  then have "set (pad_row k row) = set row" by (cases k) (auto simp: pad_row_def)
  then show ?thesis by simp
qed

text \<open>
  C7.  With the pooling method \<open>max_pool\<close>, pooling a tensor whose neighbour rows were
  padded with repetitions of their first entry gives the same tensor, entry by entry,
  as pooling the rows of the true neighbours alone: the maximum does not change when a
  value that is already there is repeated.
\<close>

theorem max_pool_ignores_padding:
  assumes "shape x = [B, C, H, W]" and "0 < W" and "wf_tensor x"
  shows "sa_pool ''max_pool'' (pad_neighbours k x) = sa_pool ''max_pool'' x
         \<and> sa_pool ''max_pool'' x = Inr (Tensor [B, C, H, 1] (map (\<lambda>row. Max (set row)) (chunks W (elems x))))"
proof -
  let ?rows = "chunks W (elems x)"
  have len: "length (elems x) = (B * C * H) * W"
    using assms(1,3) by (simp add: wf_tensor_def)
  have rows: "\<forall>r \<in> set ?rows. length r = W"
    using chunks_rows [OF assms(2) len] by simp
  have padded: "\<forall>r \<in> set (map (pad_row k) ?rows). length r = W + k"
    using rows by (simp add: pad_row_def)
  have ch: "chunks (W + k) (concat (map (pad_row k) ?rows)) = map (pad_row k) ?rows"
    using assms(2) padded by (intro chunks_concat) auto
  have mx: "\<forall>r \<in> set ?rows. Max (set (pad_row k r)) = Max (set r)"
  proof -
    have "\<forall>r \<in> set ?rows. r \<noteq> []" using rows assms(2) by auto
    then show ?thesis by (simp add: Max_pad_row)
  qed
  have p: "pad_neighbours k x = Tensor [B, C, H, W + k] (concat (map (pad_row k) ?rows))"
    using assms(1) by (simp add: pad_neighbours_def)
  have l: "sa_pool ''max_pool'' (pad_neighbours k x)
        = Inr (Tensor [B, C, H, 1] (map (\<lambda>row. Max (set row)) ?rows))"
    unfolding p using assms(2) mx by (simp add: sa_pool_def max_pool2d_def pool_rows_def ch)
  have r: "sa_pool ''max_pool'' x = Inr (Tensor [B, C, H, 1] (map (\<lambda>row. Max (set row)) ?rows))"
    using assms(1,2) by (simp add: sa_pool_def max_pool2d_def pool_rows_def)
  show ?thesis using l r by simp
qed

theorem max_pool_ignores_padding_witness:
  "shape (Tensor [1, 1, 1, 2] [1, 3]) = [1, 1, 1, 2] \<and> wf_tensor (Tensor [1, 1, 1, 2] [1, 3]) \<and>
   pad_neighbours 2 (Tensor [1, 1, 1, 2] [1, 3]) = Tensor [1, 1, 1, 4] [1, 3, 1, 1] \<and>
   sa_pool ''max_pool'' (Tensor [1, 1, 1, 4] [1, 3, 1, 1]) = Inr (Tensor [1, 1, 1, 1] [3]) \<and>
   sa_pool ''max_pool'' (Tensor [1, 1, 1, 2] [1, 3]) = Inr (Tensor [1, 1, 1, 1] [3])"
proof -
  let ?t = "Tensor [1, 1, 1, 2] [1, 3]"
  have h1: "shape ?t = [1, 1, 1, 2]" by simp
  have h2: "(0::nat) < 2" by simp
  have h3: "wf_tensor ?t" by (simp add: wf_tensor_def)
  have p: "pad_neighbours 2 ?t = Tensor [1, 1, 1, 4] [1, 3, 1, 1]"
    by (simp add: pad_neighbours_def chunks.simps pad_row_def numeral_2_eq_2)
  have c: "map (\<lambda>row. Max (set row)) (chunks 2 (elems ?t)) = [3]"
    by (simp add: chunks.simps)
  show ?thesis
    using max_pool_ignores_padding [OF h1 h2 h3, of 2] h1 h3 p c by simp
qed

text \<open>
  Nothing of the kind holds for \<open>avg_pool\<close>: padding the row \<open>[1, 3]\<close> once moves the
  mean from 2 to 5/3.
\<close>

lemma avg_pool_padding_bias:
  "sa_pool ''avg_pool'' (pad_neighbours 1 (Tensor [1, 1, 1, 2] [1, 3]))
     = Inr (Tensor [1, 1, 1, 1] [5 / 3])
   \<and> sa_pool ''avg_pool'' (Tensor [1, 1, 1, 2] [1, 3]) = Inr (Tensor [1, 1, 1, 1] [2])"
  by (simp add: sa_pool_def avg_pool2d_def pool_rows_def pad_neighbours_def chunks.simps
      pad_row_def)

section \<open>An unknown pooling method\<close>

lemma bad_pool: "pm \<noteq> ''max_pool'' \<Longrightarrow> pm \<noteq> ''avg_pool'' \<Longrightarrow> sa_pool pm t = Inl NotImplementedError"
  by (simp add: sa_pool_def)

lemma bind_err_Inr_iff: "bind_err r f = Inr v \<longleftrightarrow> (\<exists>a. r = Inr a \<and> f a = Inr v)"
  by (cases r) (simp_all add: bind_err_def)

lemma forward_InrD:
  assumes "PointnetSAModuleBase_forward G P m xyz features new_xyz = Inr (c, f)"
  shows "\<exists>x l. xyz = Some x \<and>
           sa_scale_loop P m x c features [0 ..< length (groupers m)] [] = Inr l \<and>
           cat_dim1 l = Inr f \<and>
           (new_xyz \<noteq> None \<longrightarrow> c = new_xyz) \<and> (new_xyz = None \<and> npoint m = None \<longrightarrow> c = None)"
  using assms
  by (cases xyz; cases new_xyz; cases "npoint m")
     (auto simp: PointnetSAModuleBase_forward_def bind_err_Inr_iff)

lemma bad_pool_scale_loop:
  assumes "pool_method m \<noteq> ''max_pool''" and "pool_method m \<noteq> ''avg_pool''"
  shows "sa_scale_loop P m xyz new_xyz features (i # is) acc \<noteq> Inr r"
  using assms by (simp add: bind_err_Inr_iff bad_pool)

lemma bad_pool_forward:
  assumes "pool_method m \<noteq> ''max_pool''" and "pool_method m \<noteq> ''avg_pool''"
  shows "PointnetSAModuleBase_forward G P m xyz features new_xyz \<noteq> Inr r"
proof
  assume a: "PointnetSAModuleBase_forward G P m xyz features new_xyz = Inr r"
  obtain c f where r: "r = (c, f)" by (cases r)
  from forward_InrD [OF a [unfolded r]] obtain x l where
    loop: "sa_scale_loop P m x c features [0 ..< length (groupers m)] [] = Inr l"
    and cat: "cat_dim1 l = Inr f" by blast
  show False
  proof (cases "length (groupers m)")
    case 0
    with loop have "l = []" by simp
    with cat show False by (simp add: cat_dim1_def)
  next
    case (Suc n)
    then have "[0 ..< length (groupers m)] = 0 # [1 ..< length (groupers m)]"
      by (simp add: upt_rec)
    with loop bad_pool_scale_loop [OF assms] show False by metis
  qed
qed

text \<open>
  C4 as the spec states it fails: a stage with the pooling method \<open>sum_pool\<close> is
  constructed without an error.  The stage has no scale.
\<close>

theorem unknown_pool_constructed_counterexample:
  "PointnetSAModuleMSG_init shipped empty_store None [] [] [] True ''sum_pool''
     = (Inr (bare_stage None ''sum_pool''), empty_store)"
  by (simp add: PointnetSAModuleMSG_init_def bare_stage_def)

text \<open>
  C4, as the code has it.  The constructor does not look at the pooling method: with a
  method other than \<open>max_pool\<close> and \<open>avg_pool\<close> it succeeds or fails exactly as it does
  with \<open>max_pool\<close>, leaves the same store, and the stage it builds differs only in the
  method it stores.  The method is looked at in the forward pass only, inside the loop
  over the scales: there the pooling step raises \<open>NotImplementedError\<close> on every tensor
  it is given, and no forward call of such a stage returns.
\<close>

theorem unknown_pool_fails_in_forward:
  assumes "pool \<noteq> ''max_pool''" and "pool \<noteq> ''avg_pool''"
  shows "fst (PointnetSAModuleMSG_init G h np radii nsamples refs use_xyz pool)
           = map_sum id (\<lambda>m. m\<lparr>pool_method := pool\<rparr>)
               (fst (PointnetSAModuleMSG_init G h np radii nsamples refs use_xyz ''max_pool''))
         \<and> snd (PointnetSAModuleMSG_init G h np radii nsamples refs use_xyz pool)
           = snd (PointnetSAModuleMSG_init G h np radii nsamples refs use_xyz ''max_pool'')
         \<and> (\<forall>m. fst (PointnetSAModuleMSG_init G h np radii nsamples refs use_xyz pool) = Inr m \<longrightarrow>
               (\<forall>t. sa_pool (pool_method m) t = Inl NotImplementedError) \<and>
               (\<forall>G' P xyz features new_xyz r.
                   PointnetSAModuleBase_forward G' P m xyz features new_xyz \<noteq> Inr r))"
proof -
  have a: "fst (PointnetSAModuleMSG_init G h np radii nsamples refs use_xyz pool)
           = map_sum id (\<lambda>m. m\<lparr>pool_method := pool\<rparr>)
               (fst (PointnetSAModuleMSG_init G h np radii nsamples refs use_xyz ''max_pool''))"
    by (simp add: PointnetSAModuleMSG_init_def split: prod.splits sum.splits)
  have b: "snd (PointnetSAModuleMSG_init G h np radii nsamples refs use_xyz pool)
           = snd (PointnetSAModuleMSG_init G h np radii nsamples refs use_xyz ''max_pool'')"
    by (simp add: PointnetSAModuleMSG_init_def split: prod.splits sum.splits)
  have c: "pool_method m = pool"
    if "fst (PointnetSAModuleMSG_init G h np radii nsamples refs use_xyz pool) = Inr m" for m
    using that by (auto simp: PointnetSAModuleMSG_init_def split: prod.splits sum.splits if_splits)
  show ?thesis
    using a b c assms bad_pool bad_pool_forward by (metis (no_types, lifting))
qed

text \<open>
  The theorem at two calls.  In the module as it is, the stage without a scale is
  constructed with \<open>sum_pool\<close> as it is with \<open>max_pool\<close>, and its forward call ends in the
  error of \<open>torch.cat\<close> on an empty list, before any pooling.  With a module of kernels
  bound under \<open>pointnet2_utils\<close>, a global stage with one scale is constructed with
  \<open>sum_pool\<close>, and its forward call ends in \<open>NotImplementedError\<close>.
\<close>

theorem unknown_pool_fails_in_forward_witness:
  "''sum_pool'' \<noteq> ''max_pool'' \<and> ''sum_pool'' \<noteq> ''avg_pool'' \<and>
   fst (PointnetSAModuleMSG_init shipped empty_store None [] [] [] True ''sum_pool'')
     = Inr (bare_stage None ''sum_pool'') \<and>
   fst (PointnetSAModuleMSG_init shipped empty_store None [] [] [] True ''max_pool'')
     = Inr (bare_stage None ''max_pool'') \<and>
   sa_pool ''sum_pool'' (Tensor [1, 8, 2, 2] []) = Inl NotImplementedError \<and>
   PointnetSAModuleBase_forward shipped zero_prims (bare_stage None ''sum_pool'')
       (Some three_points) (Some one_feature) None = Inl (RuntimeError ''cat'') \<and>
   fst (PointnetSAModuleMSG_init with_kernels list_1_2 None [100] [64] [0] True ''sum_pool'')
     = Inr (global_stage\<lparr>pool_method := ''sum_pool''\<rparr>) \<and>
   PointnetSAModuleBase_forward with_kernels zero_prims (global_stage\<lparr>pool_method := ''sum_pool''\<rparr>)
       (Some three_points) (Some one_feature) None = Inl NotImplementedError"
proof -
  have h1: "''sum_pool'' \<noteq> ''max_pool''" and h2: "''sum_pool'' \<noteq> ''avg_pool''" by simp_all
  have c: "fst (PointnetSAModuleMSG_init shipped empty_store None [] [] [] True ''max_pool'')
     = Inr (bare_stage None ''max_pool'')"
    by (simp add: PointnetSAModuleMSG_init_def bare_stage_def)
  have f: "PointnetSAModuleBase_forward shipped zero_prims (bare_stage None ''sum_pool'')
       (Some three_points) (Some one_feature) None = Inl (RuntimeError ''cat'')"
    by (simp add: PointnetSAModuleBase_forward_def bare_stage_def three_points_def transpose12_def
        bind_err_def cat_dim1_def)
  have k: "fst (PointnetSAModuleMSG_init with_kernels list_1_2 None [100] [64] [0] True ''sum_pool'')
     = Inr (global_stage\<lparr>pool_method := ''sum_pool''\<rparr>)"
    by (simp add: PointnetSAModuleMSG_init_def read_pointnet2_utils_with_kernels list_1_2_def
        add3_first_def gen_CNN_def global_stage_def empty_store_def)
  have g: "PointnetSAModuleBase_forward with_kernels zero_prims
       (global_stage\<lparr>pool_method := ''sum_pool''\<rparr>)
       (Some three_points) (Some one_feature) None = Inl NotImplementedError"
    by (simp add: PointnetSAModuleBase_forward_def global_stage_def three_points_def
        one_feature_def transpose12_def bind_err_def py_get_def py_index_def apply_grouper_def
        group_all_def size_at_def cnn_apply_def in_width_def out_width_def sa_pool_def)
  note t = unknown_pool_fails_in_forward [OF h1 h2, of shipped empty_store None "[]" "[]" "[]" True]
  from t have a: "fst (PointnetSAModuleMSG_init shipped empty_store None [] [] [] True ''sum_pool'')
           = map_sum id (\<lambda>m. m\<lparr>pool_method := ''sum_pool''\<rparr>)
               (fst (PointnetSAModuleMSG_init shipped empty_store None [] [] [] True ''max_pool''))"
    by blast
  from t have q: "\<forall>m. fst (PointnetSAModuleMSG_init shipped empty_store None [] [] [] True
                          ''sum_pool'') = Inr m \<longrightarrow>
               (\<forall>t. sa_pool (pool_method m) t = Inl NotImplementedError)"
    by blast
  from a c have s: "fst (PointnetSAModuleMSG_init shipped empty_store None [] [] [] True ''sum_pool'')
     = Inr (bare_stage None ''sum_pool'')"
    by (simp add: bare_stage_def)
  from q s have "sa_pool (pool_method (bare_stage None ''sum_pool'')) (Tensor [1, 8, 2, 2] [])
                   = Inl NotImplementedError"
    by blast
  then have p: "sa_pool ''sum_pool'' (Tensor [1, 8, 2, 2] []) = Inl NotImplementedError"
    by (simp add: bare_stage_def)
  from h1 h2 s c p f k g show ?thesis by blast
qed

section \<open>Shapes in the forward pass of a set-abstraction stage\<close>

lemma apply_grouper_shape:
  assumes "apply_grouper P g x c features = Inr grouped"
  shows "shape grouped
           = [size_at x 0, grouper_width g features,
              (case g of QueryAndGroup _ _ _ \<Rightarrow> size_at (the c) 1 | GroupAll _ \<Rightarrow> 1),
              (case g of QueryAndGroup _ nsample _ \<Rightarrow> nat nsample | GroupAll _ \<Rightarrow> size_at x 1)]
          \<and> (case g of QueryAndGroup _ _ _ \<Rightarrow> c \<noteq> None | GroupAll _ \<Rightarrow> True)"
  using assms
  by (cases g; cases c; cases features)
     (auto simp: apply_grouper_def query_and_group_def group_all_def grouper_width_def
        feat_width_def split: if_splits)

lemma cnn_apply_shape:
  assumes "cnn_apply P cn x = Inr y" and "shape x = [B, C, H, W]"
  shows "shape y = [B, out_channels_of cn C, H, W]"
  using assms by (auto simp: cnn_apply_def out_channels_of_def size_at_def split: if_splits)

lemma out_channels_of_last:
  "2 \<le> length (cnn_spec cn) \<Longrightarrow> out_channels_of cn w = nat (last (cnn_spec cn))"
  by (simp add: out_channels_of_def out_width_def)

lemma pool_rows_shape:
  assumes "pool_rows f name x = Inr y" and "shape x = [B, C, H, W]"
  shows "shape y = [B, C, H, 1]"
  using assms by (auto simp: pool_rows_def split: if_splits)

lemma sa_pool_shape:
  assumes "sa_pool pm x = Inr y" and "shape x = [B, C, H, W]"
  shows "shape (squeeze_last y) = [B, C, H]"
proof -
  from assms(1) have "max_pool2d x = Inr y \<or> avg_pool2d x = Inr y"
    by (auto simp: sa_pool_def split: if_splits)
  then have "shape y = [B, C, H, 1]"
    using assms(2) by (auto simp: max_pool2d_def avg_pool2d_def dest: pool_rows_shape)
  then show ?thesis by (simp add: squeeze_last_def)
qed

lemma py_get_nat: "py_get xs (int i) = Inr v \<longleftrightarrow> i < length xs \<and> v = xs ! i"
  by (auto simp: py_get_def py_index_def)

text \<open>
  What the loop over the scales has done when it returns: every scale was grouped,
  transformed and pooled, in this order, and the pooled tensor without its last
  dimension was appended.
\<close>

lemma scale_loop_steps:
  assumes "sa_scale_loop P m x c features is acc = Inr l"
  shows "\<exists>ts. l = acc @ ts \<and> length ts = length is \<and>
           (\<forall>j < length is. is ! j < length (groupers m) \<and> is ! j < length (mlps m) \<and>
              (\<exists>grouped transformed pooled.
                  apply_grouper P (groupers m ! (is ! j)) x c features = Inr grouped \<and>
                  cnn_apply P (mlps m ! (is ! j)) grouped = Inr transformed \<and>
                  sa_pool (pool_method m) transformed = Inr pooled \<and>
                  ts ! j = squeeze_last pooled))"
  using assms
proof (induction "is" arbitrary: acc)
  case Nil
  then show ?case by simp
next
  case (Cons i "is")
  from Cons.prems obtain g grouped cn transformed pooled where
    st: "py_get (groupers m) (int i) = Inr g"
        "apply_grouper P g x c features = Inr grouped"
        "py_get (mlps m) (int i) = Inr cn"
        "cnn_apply P cn grouped = Inr transformed"
        "sa_pool (pool_method m) transformed = Inr pooled"
    and rest: "sa_scale_loop P m x c features is (acc @ [squeeze_last pooled]) = Inr l"
    by (auto simp: bind_err_Inr_iff)
  from st(1,3) have i: "i < length (groupers m)" "g = groupers m ! i"
    "i < length (mlps m)" "cn = mlps m ! i"
    by (simp_all add: py_get_nat)
  from Cons.IH [OF rest] obtain ts where
    ts: "l = (acc @ [squeeze_last pooled]) @ ts" "length ts = length is"
    and all: "\<forall>j < length is. is ! j < length (groupers m) \<and> is ! j < length (mlps m) \<and>
              (\<exists>grouped transformed pooled.
                  apply_grouper P (groupers m ! (is ! j)) x c features = Inr grouped \<and>
                  cnn_apply P (mlps m ! (is ! j)) grouped = Inr transformed \<and>
                  sa_pool (pool_method m) transformed = Inr pooled \<and>
                  ts ! j = squeeze_last pooled)"
    by blast
  have step: "\<exists>grouped transformed pooled'.
                  apply_grouper P (groupers m ! i) x c features = Inr grouped \<and>
                  cnn_apply P (mlps m ! i) grouped = Inr transformed \<and>
                  sa_pool (pool_method m) transformed = Inr pooled' \<and>
                  squeeze_last pooled = squeeze_last pooled'"
    using st i by blast
  show ?case
  proof (intro exI [of _ "squeeze_last pooled # ts"] conjI allI impI)
    show "l = acc @ squeeze_last pooled # ts" using ts by simp
    show "length (squeeze_last pooled # ts) = length (i # is)" using ts by simp
  next
    fix j assume j: "j < length (i # is)"
    show "(i # is) ! j < length (groupers m)" using i all j by (cases j) auto
    show "(i # is) ! j < length (mlps m)" using i all j by (cases j) auto
    show "\<exists>grouped transformed pooled'.
            apply_grouper P (groupers m ! ((i # is) ! j)) x c features = Inr grouped \<and>
            cnn_apply P (mlps m ! ((i # is) ! j)) grouped = Inr transformed \<and>
            sa_pool (pool_method m) transformed = Inr pooled' \<and>
            (squeeze_last pooled # ts) ! j = squeeze_last pooled'"
    proof (cases j)
      case 0
      with step show ?thesis by simp
    next
      case (Suc j')
      with j all show ?thesis by simp
    qed
  qed
qed

lemma scale_shape:
  assumes "apply_grouper P g x c features = Inr grouped"
      and "cnn_apply P cn grouped = Inr transformed"
      and "sa_pool pm transformed = Inr pooled"
  shows "shape (squeeze_last pooled)
           = [size_at x 0, out_channels_of cn (grouper_width g features),
              (case g of QueryAndGroup _ _ _ \<Rightarrow> size_at (the c) 1 | GroupAll _ \<Rightarrow> 1)] \<and>
         (case g of QueryAndGroup _ _ _ \<Rightarrow> c \<noteq> None | GroupAll _ \<Rightarrow> True)"
proof -
  note gs = apply_grouper_shape [OF assms(1)]
  from gs have sh: "shape grouped
           = [size_at x 0, grouper_width g features,
              (case g of QueryAndGroup _ _ _ \<Rightarrow> size_at (the c) 1 | GroupAll _ \<Rightarrow> 1),
              (case g of QueryAndGroup _ nsample _ \<Rightarrow> nat nsample | GroupAll _ \<Rightarrow> size_at x 1)]"
    by blast
  from sa_pool_shape [OF assms(3) cnn_apply_shape [OF assms(2) sh]] gs show ?thesis by blast
qed

lemma cat_dim1_shape:
  assumes "cat_dim1 ts = Inr f"
  shows "ts \<noteq> [] \<and> length (shape (hd ts)) \<ge> 2 \<and>
         shape f = hd (shape (hd ts)) # sum_list (map (\<lambda>u. shape u ! 1) ts) # drop 2 (shape (hd ts))"
  using assms
  by (cases ts; cases "shape (hd ts)"; cases "tl (shape (hd ts))")
     (auto simp: cat_dim1_def split: if_splits)

text \<open>What a stage that returns has done, and the shape of what it returns.\<close>

lemma sa_forward_steps:
  assumes "PointnetSAModuleBase_forward G P m (Some x) features new_xyz = Inr (c, f)"
  shows "\<exists>ts. length ts = length (groupers m) \<and> cat_dim1 ts = Inr f \<and>
           (\<forall>k < length (groupers m). k < length (mlps m) \<and>
              (\<exists>grouped transformed pooled.
                  apply_grouper P (groupers m ! k) x c features = Inr grouped \<and>
                  cnn_apply P (mlps m ! k) grouped = Inr transformed \<and>
                  sa_pool (pool_method m) transformed = Inr pooled \<and>
                  ts ! k = squeeze_last pooled))"
proof -
  from forward_InrD [OF assms] obtain l where
    loop: "sa_scale_loop P m x c features [0 ..< length (groupers m)] [] = Inr l"
    and cat: "cat_dim1 l = Inr f" by blast
  from scale_loop_steps [OF loop] cat show ?thesis by auto
qed

lemma sa_forward_shape:
  assumes "PointnetSAModuleBase_forward G P m (Some x) features new_xyz = Inr (c, f)"
  shows "0 < length (groupers m) \<and> length (groupers m) \<le> length (mlps m) \<and>
         shape f = [size_at x 0,
                    sum_list (map (scale_width m features) [0 ..< length (groupers m)]),
                    (case groupers m ! 0 of QueryAndGroup _ _ _ \<Rightarrow> size_at (the c) 1 | GroupAll _ \<Rightarrow> 1)] \<and>
         (\<forall>k < length (groupers m).
            case groupers m ! k of QueryAndGroup _ _ _ \<Rightarrow> c \<noteq> None | GroupAll _ \<Rightarrow> True)"
proof -
  let ?n = "length (groupers m)"
  from sa_forward_steps [OF assms] obtain l where
    len: "length l = ?n" and cat: "cat_dim1 l = Inr f"
    and steps: "\<forall>k < ?n. k < length (mlps m) \<and>
              (\<exists>grouped transformed pooled.
                  apply_grouper P (groupers m ! k) x c features = Inr grouped \<and>
                  cnn_apply P (mlps m ! k) grouped = Inr transformed \<and>
                  sa_pool (pool_method m) transformed = Inr pooled \<and>
                  l ! k = squeeze_last pooled)"
    by blast
  have all: "shape (l ! k)
                = [size_at x 0, scale_width m features k,
                   (case groupers m ! k of QueryAndGroup _ _ _ \<Rightarrow> size_at (the c) 1 | GroupAll _ \<Rightarrow> 1)] \<and>
              (case groupers m ! k of QueryAndGroup _ _ _ \<Rightarrow> c \<noteq> None | GroupAll _ \<Rightarrow> True)"
    if "k < ?n" for k
  proof -
    from steps that obtain grouped transformed pooled where
      "apply_grouper P (groupers m ! k) x c features = Inr grouped"
      "cnn_apply P (mlps m ! k) grouped = Inr transformed"
      "sa_pool (pool_method m) transformed = Inr pooled"
      and lk: "l ! k = squeeze_last pooled" by blast
    from scale_shape [OF this(1,2,3)] lk show ?thesis by (simp add: scale_width_def)
  qed
  from cat_dim1_shape [OF cat] have ne: "l \<noteq> []"
    and sh: "shape f = hd (shape (hd l)) # sum_list (map (\<lambda>u. shape u ! 1) l) # drop 2 (shape (hd l))"
    by auto
  from ne len have pos: "0 < ?n" by auto
  have le: "?n \<le> length (mlps m)"
  proof -
    have "?n - 1 < length (mlps m)" using steps pos by simp
    then show ?thesis by simp
  qed
  have hd0: "hd l = l ! 0" using ne by (simp add: hd_conv_nth)
  have widths: "map (\<lambda>u. shape u ! 1) l = map (scale_width m features) [0 ..< ?n]"
    using len all by (intro nth_equalityI) auto
  have sh': "shape f = hd (shape (l ! 0))
      # sum_list (map (scale_width m features) [0 ..< ?n]) # drop 2 (shape (l ! 0))"
    using sh unfolding widths hd0 .
  have l0: "shape (l ! 0) = [size_at x 0, scale_width m features 0,
                   (case groupers m ! 0 of QueryAndGroup _ _ _ \<Rightarrow> size_at (the c) 1 | GroupAll _ \<Rightarrow> 1)]"
    using all [OF pos] by simp
  show ?thesis
    using sh' pos le all unfolding l0 by simp
qed

section \<open>The global stage\<close>

lemma global_stage_constructed:
  "fst (PointnetSAModuleMSG_init with_kernels list_1_2 None [100] [64] [0] True ''max_pool'')
     = Inr global_stage"
  by (simp add: PointnetSAModuleMSG_init_def read_pointnet2_utils_with_kernels gen_CNN_def
      add3_first_def empty_store_def list_1_2_def global_stage_def)

lemma global_stage_forward:
  "PointnetSAModuleBase_forward with_kernels zero_prims global_stage (Some three_points)
     (Some one_feature) None = Inr (None, Tensor [1, 2, 1] [0, 0])"
  by code_simp

text \<open>
  C8 as the spec states it fails.  In the module as it is, the only global stage that
  can be constructed has no scale, and its forward call without explicit centers ends
  in the error of \<open>torch.cat\<close> on an empty list: it returns neither centers nor
  features.  With a module of kernels bound under \<open>pointnet2_utils\<close>, the global stage
  with one scale is constructed, and its forward call on a cloud of three points returns
  \<open>None\<close> in the place of the centers, not a tensor of one center.
\<close>

theorem global_stage_centers_counterexample:
  "PointnetSAModuleMSG_init shipped empty_store None [] [] [] True ''max_pool''
     = (Inr (bare_stage None ''max_pool''), empty_store)
   \<and> PointnetSAModuleBase_forward shipped zero_prims (bare_stage None ''max_pool'')
       (Some three_points) (Some one_feature) None = Inl (RuntimeError ''cat'')
   \<and> fst (PointnetSAModuleMSG_init with_kernels list_1_2 None [100] [64] [0] True ''max_pool'')
       = Inr global_stage
   \<and> PointnetSAModuleBase_forward with_kernels zero_prims global_stage (Some three_points)
       (Some one_feature) None = Inr (None, Tensor [1, 2, 1] [0, 0])"
proof -
  have a: "PointnetSAModuleMSG_init shipped empty_store None [] [] [] True ''max_pool''
     = (Inr (bare_stage None ''max_pool''), empty_store)"
    by (simp add: PointnetSAModuleMSG_init_def bare_stage_def)
  have b: "PointnetSAModuleBase_forward shipped zero_prims (bare_stage None ''max_pool'')
       (Some three_points) (Some one_feature) None = Inl (RuntimeError ''cat'')"
    by (simp add: PointnetSAModuleBase_forward_def bare_stage_def three_points_def transpose12_def
        bind_err_def cat_dim1_def)
  from a b global_stage_constructed global_stage_forward show ?thesis by blast
qed

text \<open>
  C8, as the code has it.  A stage without a target point count (\<open>npoint is None\<close>),
  called on the coordinates \<open>x\<close> of \<open>B\<close> clouds of \<open>N\<close> points without explicit centers,
  returns \<open>None\<close> as its centers whenever it returns, whatever names are bound.  With it
  comes the concatenation over the scales of the pooled features: for every scale the
  grouper has put all \<open>N\<close> points of a cloud into one group, the transform of the scale
  was applied to the group, and the result was pooled over the \<open>N\<close> points.  The feature
  tensor is \<open>(B, \<Sum>\<^sub>k width\<^sub>k, 1)\<close>, one output point for every cloud; \<open>width\<^sub>k\<close> is the
  last entry of the width sequence of scale \<open>k\<close> when every transform has a layer.
\<close>

theorem global_stage_returns_no_centers:
  assumes "npoint m = None"
      and "PointnetSAModuleBase_forward G P m (Some x) features None = Inr (c, f)"
  shows "c = None
       \<and> shape f = [size_at x 0,
                    sum_list (map (scale_width m features) [0 ..< length (groupers m)]), 1]
       \<and> ((\<forall>k < length (groupers m). 2 \<le> length (cnn_spec (mlps m ! k))) \<longrightarrow>
            shape f = [size_at x 0,
                       sum_list (map (\<lambda>k. nat (last (cnn_spec (mlps m ! k))))
                                   [0 ..< length (groupers m)]), 1])
       \<and> (\<exists>ts. length ts = length (groupers m) \<and> cat_dim1 ts = Inr f \<and>
            (\<forall>k < length (groupers m).
               \<exists>grouped transformed pooled.
                  apply_grouper P (groupers m ! k) x None features = Inr grouped \<and>
                  shape grouped
                    = [size_at x 0, grouper_width (groupers m ! k) features, 1, size_at x 1] \<and>
                  cnn_apply P (mlps m ! k) grouped = Inr transformed \<and>
                  sa_pool (pool_method m) transformed = Inr pooled \<and>
                  ts ! k = squeeze_last pooled))"
proof -
  let ?n = "length (groupers m)"
  from forward_InrD [OF assms(2)] assms(1) have c: "c = None" by auto
  note sh = sa_forward_shape [OF assms(2)]
  have all_group: "\<exists>u. groupers m ! k = GroupAll u" if "k < ?n" for k
    using sh c that by (cases "groupers m ! k") auto
  from sh have pos: "0 < ?n" by blast
  have shape_f: "shape f = [size_at x 0, sum_list (map (scale_width m features) [0 ..< ?n]), 1]"
    using sh all_group [OF pos] by auto
  have widths: "map (scale_width m features) [0 ..< ?n]
                  = map (\<lambda>k. nat (last (cnn_spec (mlps m ! k)))) [0 ..< ?n]"
    if "\<forall>k < ?n. 2 \<le> length (cnn_spec (mlps m ! k))"
    using that by (intro nth_equalityI) (auto simp: scale_width_def out_channels_of_last)
  from sa_forward_steps [OF assms(2)] obtain ts where
    len: "length ts = ?n" and cat: "cat_dim1 ts = Inr f"
    and steps: "\<forall>k < ?n. k < length (mlps m) \<and>
              (\<exists>grouped transformed pooled.
                  apply_grouper P (groupers m ! k) x c features = Inr grouped \<and>
                  cnn_apply P (mlps m ! k) grouped = Inr transformed \<and>
                  sa_pool (pool_method m) transformed = Inr pooled \<and>
                  ts ! k = squeeze_last pooled)"
    by blast
  have step: "\<exists>grouped transformed pooled.
                  apply_grouper P (groupers m ! k) x None features = Inr grouped \<and>
                  shape grouped
                    = [size_at x 0, grouper_width (groupers m ! k) features, 1, size_at x 1] \<and>
                  cnn_apply P (mlps m ! k) grouped = Inr transformed \<and>
                  sa_pool (pool_method m) transformed = Inr pooled \<and>
                  ts ! k = squeeze_last pooled"
    if k: "k < ?n" for k
  proof -
    from steps k c obtain grouped transformed pooled where
      g: "apply_grouper P (groupers m ! k) x None features = Inr grouped"
      and t: "cnn_apply P (mlps m ! k) grouped = Inr transformed"
         "sa_pool (pool_method m) transformed = Inr pooled" "ts ! k = squeeze_last pooled"
      by blast
    from all_group [OF k] obtain u where u: "groupers m ! k = GroupAll u" by blast
    from apply_grouper_shape [OF g] u have
      "shape grouped = [size_at x 0, grouper_width (groupers m ! k) features, 1, size_at x 1]"
      by simp
    with g t show ?thesis by blast
  qed
  have third: "(\<forall>k < ?n. 2 \<le> length (cnn_spec (mlps m ! k))) \<longrightarrow>
            shape f = [size_at x 0,
                       sum_list (map (\<lambda>k. nat (last (cnn_spec (mlps m ! k)))) [0 ..< ?n]), 1]"
  proof
    assume a: "\<forall>k < ?n. 2 \<le> length (cnn_spec (mlps m ! k))"
    from shape_f show "shape f = [size_at x 0,
                       sum_list (map (\<lambda>k. nat (last (cnn_spec (mlps m ! k)))) [0 ..< ?n]), 1]"
      unfolding widths [OF a] .
  qed
  have fourth: "\<exists>ts. length ts = ?n \<and> cat_dim1 ts = Inr f \<and>
            (\<forall>k < ?n.
               \<exists>grouped transformed pooled.
                  apply_grouper P (groupers m ! k) x None features = Inr grouped \<and>
                  shape grouped
                    = [size_at x 0, grouper_width (groupers m ! k) features, 1, size_at x 1] \<and>
                  cnn_apply P (mlps m ! k) grouped = Inr transformed \<and>
                  sa_pool (pool_method m) transformed = Inr pooled \<and>
                  ts ! k = squeeze_last pooled)"
    using len cat step by blast
  from c shape_f third fourth show ?thesis by blast
qed

theorem global_stage_returns_no_centers_witness:
  "fst (PointnetSAModuleMSG_init with_kernels list_1_2 None [100] [64] [0] True ''max_pool'')
     = Inr global_stage \<and>
   npoint global_stage = None \<and>
   PointnetSAModuleBase_forward with_kernels zero_prims global_stage (Some three_points)
     (Some one_feature) None = Inr (None, Tensor [1, 2, 1] [0, 0]) \<and>
   shape (Tensor [1, 2, 1] [0, 0])
     = [size_at three_points 0,
        sum_list (map (scale_width global_stage (Some one_feature))
                    [0 ..< length (groupers global_stage)]), 1] \<and>
   scale_width global_stage (Some one_feature) 0 = 2"
proof -
  have h1: "npoint global_stage = None" by (simp add: global_stage_def)
  have w: "scale_width global_stage (Some one_feature) 0 = 2"
    by (simp add: scale_width_def global_stage_def out_channels_of_def out_width_def)
  from global_stage_returns_no_centers [OF h1 global_stage_forward]
  have "shape (Tensor [1, 2, 1] [0, 0])
     = [size_at three_points 0,
        sum_list (map (scale_width global_stage (Some one_feature))
                    [0 ..< length (groupers global_stage)]), 1]"
    by blast
  with h1 w global_stage_constructed global_stage_forward show ?thesis by blast
qed

section \<open>What the constructor of the network builds\<close>







lemma full_net_constructed:
  "Pointnet2MSG_init with_kernels 4 True small_cfg [[5], [6], [7]] = Inr full_net"
  by code_simp

lemma bare_net_constructed: "Pointnet2MSG_init shipped 4 True bare_cfg [[5]] = Inr bare_net"
  by code_simp

lemma cloud_broken_up: "break_up_pc cloud = Inr (cloud_xyz, Some cloud_features)"
  by code_simp

text \<open>
  A stage that the module as it is has constructed has no scale, and the forward call
  of a stage without a scale never returns: it ends, at the latest, in the error of
  \<open>torch.cat\<close> on an empty list.
\<close>

lemma sa_init_shipped_bare:
  assumes "fst (PointnetSAModuleMSG_init shipped h np radii nsamples refs use_xyz pool) = Inr m"
  shows "m = bare_stage np pool"
proof (cases "length radii = length nsamples \<and> length nsamples = length refs")
  case False
  with assms show ?thesis by (auto simp: PointnetSAModuleMSG_init_def)
next
  case True
  show ?thesis
  proof (cases "refs = []")
    case False
    with True sa_init_unbound [of radii nsamples refs h np use_xyz pool] assms show ?thesis
      by simp
  next
    case t: True
    with True assms show ?thesis by (auto simp: PointnetSAModuleMSG_init_def bare_stage_def)
  qed
qed

lemma no_scale_forward:
  assumes "groupers m = []"
  shows "PointnetSAModuleBase_forward G P m xyz features new_xyz \<noteq> Inr r"
proof
  assume a: "PointnetSAModuleBase_forward G P m xyz features new_xyz = Inr r"
  obtain c f where r: "r = (c, f)" by (cases r)
  from forward_InrD [OF a [unfolded r]] assms obtain l where
    "sa_scale_loop P m (the xyz) c features [] [] = Inr l" and cat: "cat_dim1 l = Inr f"
    by auto
  then have "l = []" by simp
  with cat show False by (simp add: cat_dim1_def)
qed

section \<open>The output width of a set-abstraction stage\<close>

text \<open>
  C3 on the code as it is.  The network of \<open>small_cfg\<close> is not constructed, with
  relative offsets or without: the constructor of its first stage ends in the
  \<open>NameError\<close> for \<open>pointnet2_utils\<close> in the first round of its loop, as does the direct
  call for that stage.  No stage with a scale comes into being, so there is no output
  feature tensor whose width could be the sum of the final transform widths.
\<close>

theorem sa_stage_construction_raises:
  "Pointnet2MSG_init shipped 4 True small_cfg [[5]] = Inl (NameError ''pointnet2_utils'')
   \<and> Pointnet2MSG_init shipped 4 False small_cfg [[5]] = Inl (NameError ''pointnet2_utils'')
   \<and> fst (PointnetSAModuleMSG_init shipped (fresh_store [[4, 8], [4, 6]]) (Some 2) [1, 2] [2, 3]
            [0, 1] True ''max_pool'') = Inl (NameError ''pointnet2_utils'')"
  by (simp add: Pointnet2MSG_init_def small_cfg_def bind_err_def py_get_def py_index_def
      PointnetSAModuleMSG_init_def read_pointnet2_utils_shipped upt_rec [of 0])

text \<open>
  With a module of kernels bound under the missing name the stages of \<open>small_cfg\<close> are
  constructed, and the channel widths of what they return on \<open>cloud\<close>, 14 = 8 + 6, 4
  and 16, are the sums of the final transform widths of their scales and the entries 1,
  2 and 3 of \<open>skip_channel_list\<close>.
\<close>

lemma stage_widths_when_bound:
  "map_sum id (\<lambda>(lx, lf). map (map_option shape) lf)
       (encode with_kernels zero_prims partial_net cloud)
     = Inr [Some [1, 4, 3], Some [1, 14, 2], Some [1, 4, 1], Some [1, 16, 1]]
   \<and> skip_channel_list partial_net = [4, 14, 4, 16]"
  by code_simp

section \<open>The network with as many decoder stages as encoder stages\<close>

text \<open>
  C2 on the code as it is.  The network with three SA stages and three FP stages is
  not constructed: the call ends in the \<open>NameError\<close> for \<open>pointnet2_utils\<close>, raised by the
  constructor of the first SA stage, so there is no network whose forward pass could
  return the input coordinates.
\<close>

theorem full_decoder_construction_raises:
  "Pointnet2MSG_init shipped 4 True small_cfg [[5], [6], [7]]
     = Inl (NameError ''pointnet2_utils'')"
  by (simp add: Pointnet2MSG_init_def small_cfg_def bind_err_def py_get_def py_index_def
      PointnetSAModuleMSG_init_def read_pointnet2_utils_shipped upt_rec [of 0])

text \<open>
  With a module of kernels bound under the missing name the same call constructs
  \<open>full_net\<close>, and its forward pass returns the three input points in their order and a
  feature tensor of the width 5 of the FP stage that is applied last.
\<close>

lemma full_net_forward_when_bound:
  "Pointnet2MSG_forward with_kernels zero_prims full_net cloud
     = Inr (Some cloud_xyz, Some (Tensor [1, 5, 3] (zeros 15)))"
  by code_simp

section \<open>The two depth lists in the forward pass of the network\<close>








section \<open>The network with one decoder stage for three encoder stages\<close>





section \<open>The test run never reaches its loop\<close>

lemma keeps_bind:
  assumes "keeps_results m" and "\<And>v. keeps_results (f v)"
  shows "keeps_results (bind_run m f)"
  unfolding keeps_results_def
proof
  fix s
  show "test_accs (snd (bind_run m f s)) = test_accs s \<and>
        test_ious (snd (bind_run m f s)) = test_ious s \<and>
        saved_results (snd (bind_run m f s)) = saved_results s"
  proof (cases "m s")
    case (Pair r s1)
    from assms(1) Pair have k1: "test_accs s1 = test_accs s" "test_ious s1 = test_ious s"
      "saved_results s1 = saved_results s"
      unfolding keeps_results_def by (metis snd_conv)+
    show ?thesis
    proof (cases r)
      case (Inl e)
      with Pair k1 show ?thesis by (simp add: bind_run_def)
    next
      case (Inr v)
      from assms(2) [of v] have "test_accs (snd (f v s1)) = test_accs s1"
        "test_ious (snd (f v s1)) = test_ious s1" "saved_results (snd (f v s1)) = saved_results s1"
        unfolding keeps_results_def by auto
      with Inr Pair k1 show ?thesis by (simp add: bind_run_def)
    qed
  qed
qed

lemma keeps_lift: "keeps_results (lift_run r)"
  by (simp add: keeps_results_def lift_run_def)

lemma keeps_ext: "keeps_results (ext X f args)"
  by (simp add: ext_def keeps_lift)

lemma keeps_call_global: "keeps_results (call_global X f args)"
  by (simp add: call_global_def keeps_lift)

lemma keeps_add_handler: "keeps_results (add_handler h)"
  by (simp add: keeps_results_def add_handler_def)

lemma keeps_setup: "keeps_results (run_test_setup X self)"
  unfolding run_test_setup_def
  by (intro keeps_bind keeps_ext keeps_call_global keeps_add_handler keeps_lift)

lemma read_TorchDataloader: "read_name ''TorchDataloader'' = Inr (PStr ''TorchDataloader'')"
  by (simp add: read_name_def run_test_assigned_def module_names_def)

lemma read_train_sampler: "read_name ''train_sampler'' = Inl (NameError ''train_sampler'')"
  by (simp add: read_name_def run_test_assigned_def module_names_def builtin_names_def)

lemma make_test_split_fails:
  "\<exists>e. make_test_split X model dataset test_dataset s = (Inl e, s) \<and>
        (\<forall>p t. X ''model.preprocess'' [model] = Inr p \<and> X ''model.transform'' [model] = Inr t
               \<longrightarrow> e = NameError ''train_sampler'')"
  by (cases "X ''model.preprocess'' [model]"; cases "X ''model.transform'' [model]")
     (simp_all add: make_test_split_def bind_run_def lift_run_def ext_def
        read_TorchDataloader read_train_sampler)

text \<open>
  C10 as stated fails: not every call ends in a \<open>NameError\<close>.  An exception of an
  earlier statement is propagated as it is: without a test split the call ends in the
  error of \<open>dataset.get_split\<close>.
\<close>

theorem run_test_other_exception_counterexample:
  "run_test no_test_split (PObj 0) fresh_run
     = (Inl (ExternalError ''get_split''), fresh_run\<lparr>log_handlers := [PNone]\<rparr>)"
  by (simp add: run_test_def run_test_setup_def bind_run_def ext_def call_global_def lift_run_def
      add_handler_def no_test_split_def fresh_run_def read_name_def run_test_assigned_def
      module_names_def bind_err_def)

text \<open>
  C10, as the code has it.  Whatever the model, the dataset, the configuration and the
  libraries answer,
  a call of \<open>run_test\<close> ends in an exception and never returns; the metric lists of the
  pipeline and the saved results are as they were before the call, so no test example
  was processed.  Whenever the statements before the construction of the test-split
  dataloader and the two attribute reads \<open>model.preprocess\<close> and \<open>model.transform\<close>
  return, the exception is the \<open>NameError\<close> for \<open>train_sampler\<close>, a name that the function
  never assigns and the module does not define; the only trace of the call is the log
  handler added before.
\<close>

theorem run_test_raises_NameError:
  "\<exists>e s'. run_test X self s = (Inl e, s') \<and>
      test_accs s' = test_accs s \<and> test_ious s' = test_ious s \<and>
      saved_results s' = saved_results s \<and>
      (\<forall>model dataset cfg metric test_dataset test_sampler s1 p t.
          run_test_setup X self s
            = (Inr (model, dataset, cfg, metric, test_dataset, test_sampler), s1) \<and>
          X ''model.preprocess'' [model] = Inr p \<and> X ''model.transform'' [model] = Inr t
          \<longrightarrow> e = NameError ''train_sampler'' \<and> s' = s1)"
proof (cases "run_test_setup X self s")
  case (Pair r s1)
  from keeps_setup [of X self] Pair have k:
    "test_accs s1 = test_accs s" "test_ious s1 = test_ious s" "saved_results s1 = saved_results s"
    unfolding keeps_results_def by (metis snd_conv)+
  show ?thesis
  proof (cases r)
    case (Inl e)
    with Pair have "run_test X self s = (Inl e, s1)"
      by (simp add: run_test_def bind_run_def)
    with k Pair Inl show ?thesis by simp
  next
    case (Inr vals)
    obtain model dataset cfg metric test_dataset test_sampler where
      vals: "vals = (model, dataset, cfg, metric, test_dataset, test_sampler)"
      by (cases vals) auto
    from make_test_split_fails [of X model dataset test_dataset s1] obtain e where
      e: "make_test_split X model dataset test_dataset s1 = (Inl e, s1)"
      and ne: "\<forall>p t. X ''model.preprocess'' [model] = Inr p \<and> X ''model.transform'' [model] = Inr t
               \<longrightarrow> e = NameError ''train_sampler''" by blast
    from Pair Inr vals e have "run_test X self s = (Inl e, s1)"
      by (simp add: run_test_def bind_run_def)
    with k Pair Inr vals ne show ?thesis by auto
  qed
qed

lemma setup_all_succeed:
  "run_test_setup all_succeed (PObj 0) fresh_run
     = (Inr (PNone, PNone, PNone, PNone, PNone, PNone), fresh_run\<lparr>log_handlers := [PNone]\<rparr>)"
  by (simp add: run_test_setup_def bind_run_def ext_def call_global_def lift_run_def add_handler_def
      all_succeed_def fresh_run_def read_name_def run_test_assigned_def module_names_def bind_err_def)

theorem run_test_raises_NameError_witness:
  "run_test_setup all_succeed (PObj 0) fresh_run
     = (Inr (PNone, PNone, PNone, PNone, PNone, PNone), fresh_run\<lparr>log_handlers := [PNone]\<rparr>) \<and>
   all_succeed ''model.preprocess'' [PNone] = Inr PNone \<and>
   all_succeed ''model.transform'' [PNone] = Inr PNone \<and>
   run_test all_succeed (PObj 0) fresh_run
     = (Inl (NameError ''train_sampler''), fresh_run\<lparr>log_handlers := [PNone]\<rparr>)"
proof -
  have h2: "all_succeed ''model.preprocess'' [PNone] = Inr PNone"
    and h3: "all_succeed ''model.transform'' [PNone] = Inr PNone"
    by (simp_all add: all_succeed_def)
  from run_test_raises_NameError [of all_succeed "PObj 0" fresh_run] obtain e s' where
    r: "run_test all_succeed (PObj 0) fresh_run = (Inl e, s')"
    and imp: "\<forall>model dataset cfg metric test_dataset test_sampler s1 p t.
          run_test_setup all_succeed (PObj 0) fresh_run
            = (Inr (model, dataset, cfg, metric, test_dataset, test_sampler), s1) \<and>
          all_succeed ''model.preprocess'' [model] = Inr p \<and>
          all_succeed ''model.transform'' [model] = Inr t
          \<longrightarrow> e = NameError ''train_sampler'' \<and> s' = s1" by blast
  from imp setup_all_succeed h2 h3 have "e = NameError ''train_sampler''"
    "s' = fresh_run\<lparr>log_handlers := [PNone]\<rparr>" by blast+
  with r setup_all_succeed h2 h3 show ?thesis by simp
qed

end
